theory Spec2Isabelle
  imports Main "HOL-Library.Word"
begin

section \<open>The Windows Event Log input of telegraf (package \<open>win_eventlog\<close>)\<close>

text \<open>
  The development follows \<open>plugins/inputs/win_services/win_services.go\<close>, whose second
  half is the \<open>win_eventlog\<close> plugin. Go strings and byte slices are \<open>string\<close> (lists
  of 8-bit characters), \<open>uint32\<close> is \<open>32 word\<close>, Go's \<open>int\<close> values are only stored and
  compared and are \<open>int\<close>. A Go function returning \<open>(T, error)\<close> returns a pair whose second
  component is \<open>None\<close> for \<open>nil\<close>; a run-time panic (an index or a slice out of range, a
  failed type assertion) is the outcome \<open>Panic\<close>.
\<close>

subsection \<open>Values, errors and outcomes\<close>

type_synonym bytes = string
type_synonym uint32 = "32 word"
type_synonym EvtHandle = nat

text \<open>
  \<open>Errno n\<close> is the \<open>syscall.Errno\<close> of a Windows error code \<open>n\<close>. \<open>EINVAL\<close> is
  \<open>syscall.EINVAL\<close>, which \<open>syscall.UTF16PtrFromString\<close> returns: an \<open>Errno\<close> too, with
  a code the Go library invents, apart from the three codes the plugin compares with.
  \<open>ErrorText\<close> is any error of another Go type (XML, time layout, UTF-16), and
  \<open>SubscriptionError\<close> the \<open>fmt.Errorf\<close> wrapper built by \<open>Gather\<close>.
\<close>

datatype error = Errno nat | EINVAL | ErrorText string | SubscriptionError error

text \<open>
  Modelled from the spec: the three error constants are declared in a file of the package
  that is not among the sources. The spec calls them "insufficient buffer", "no more items"
  and "operation invalid"; the numbers are those of the Windows headers.
\<close>

definition ERROR_INSUFFICIENT_BUFFER :: error where
  "ERROR_INSUFFICIENT_BUFFER = Errno 122"

definition ERROR_NO_MORE_ITEMS :: error where
  "ERROR_NO_MORE_ITEMS = Errno 259"

definition ERROR_INVALID_OPERATION :: error where
  "ERROR_INVALID_OPERATION = Errno 4317"

datatype 'a outcome = Done 'a | Panic

text \<open>A value of type \<open>interface{}\<close>, by its dynamic type.\<close>

datatype iface = String_v string | Int_v int | Uint32_v uint32 | Other_v

subsection \<open>Configuration\<close>

record WinEventLog =
  Locale :: uint32
  EventlogName :: string
  Query :: string
  ProcessUserData :: bool
  ProcessEventData :: bool
  Separator :: string
  OnlyFirstLineOfMessage :: bool
  TimeStampFromEvent :: bool
  EventTags :: "string list"
  EventFields :: "string list"
  ExcludeFields :: "string list"
  ExcludeEmpty :: "string list"
  subscription :: EvtHandle
  buf :: bytes

subsection \<open>Glob classification of field names\<close>

text \<open>
  \<open>filepath.Match\<close> belongs to the Go library; it is a parameter of the model, with its
  two results. The code reads the first and drops the error.
\<close>

type_synonym matcher = "string \<Rightarrow> string \<Rightarrow> bool \<times> error option"

fun shouldExclude_range :: "matcher \<Rightarrow> string list \<Rightarrow> string \<Rightarrow> bool" where
  "shouldExclude_range Match [] field = False"
| "shouldExclude_range Match (excludePattern # rest) field =
     (if fst (Match excludePattern field) then True
      else shouldExclude_range Match rest field)"

definition shouldExclude :: "matcher \<Rightarrow> WinEventLog \<Rightarrow> string \<Rightarrow> bool" where
  "shouldExclude Match w field = shouldExclude_range Match (ExcludeFields w) field"

fun shouldProcessField_fields ::
  "matcher \<Rightarrow> WinEventLog \<Rightarrow> string list \<Rightarrow> string \<Rightarrow> bool \<times> string" where
  "shouldProcessField_fields Match w [] field = (False, ''excluded'')"
| "shouldProcessField_fields Match w (pattern # rest) field =
     (if fst (Match pattern field) then
        (if shouldExclude Match w field then (False, ''excluded'') else (True, ''fields''))
      else shouldProcessField_fields Match w rest field)"

fun shouldProcessField_tags ::
  "matcher \<Rightarrow> WinEventLog \<Rightarrow> string list \<Rightarrow> string \<Rightarrow> bool \<times> string" where
  "shouldProcessField_tags Match w [] field =
     shouldProcessField_fields Match w (EventFields w) field"
| "shouldProcessField_tags Match w (pattern # rest) field =
     (if fst (Match pattern field) then (True, ''tags'')
      else shouldProcessField_tags Match w rest field)"

definition shouldProcessField :: "matcher \<Rightarrow> WinEventLog \<Rightarrow> string \<Rightarrow> bool \<times> string" where
  "shouldProcessField Match w field = shouldProcessField_tags Match w (EventTags w) field"

text \<open>
  The \<open>switch\<close> of \<open>shouldExcludeEmptyField\<close> returns inside its three cases; with any
  other \<open>fieldType\<close> the loop goes on to the next pattern. \<open>fieldValue.(string)\<close> and its
  two siblings panic when the dynamic type of the value is another one.
\<close>

fun shouldExcludeEmptyField_range ::
  "matcher \<Rightarrow> string list \<Rightarrow> string \<Rightarrow> string \<Rightarrow> iface \<Rightarrow> bool outcome" where
  "shouldExcludeEmptyField_range Match [] field fieldType fieldValue = Done False"
| "shouldExcludeEmptyField_range Match (pattern # rest) field fieldType fieldValue =
     (if fst (Match pattern field) then
        (if fieldType = ''string'' then
           (case fieldValue of String_v s \<Rightarrow> Done (length s < 1) | _ \<Rightarrow> Panic)
         else if fieldType = ''int'' then
           (case fieldValue of Int_v i \<Rightarrow> Done (i = 0) | _ \<Rightarrow> Panic)
         else if fieldType = ''uint32'' then
           (case fieldValue of Uint32_v u \<Rightarrow> Done (u = 0) | _ \<Rightarrow> Panic)
         else shouldExcludeEmptyField_range Match rest field fieldType fieldValue)
      else shouldExcludeEmptyField_range Match rest field fieldType fieldValue)"

definition shouldExcludeEmptyField ::
  "matcher \<Rightarrow> WinEventLog \<Rightarrow> string \<Rightarrow> string \<Rightarrow> iface \<Rightarrow> bool outcome" where
  "shouldExcludeEmptyField Match w field fieldType fieldValue =
     shouldExcludeEmptyField_range Match (ExcludeEmpty w) field fieldType fieldValue"

subsection \<open>Events\<close>

text \<open>
  Modelled from the spec: the declaration of the \<open>Event\<close> structure is not among the
  sources. The fields are those the code reads and writes (\<open>Source.Name\<close>,
  \<open>TimeCreated.SystemTime\<close> and \<open>EventData.InnerXML\<close> flattened into one name each) and
  the further ones of the System section the spec lists.
\<close>

record Event =
  Source_Name :: string
  EventID :: int
  Version :: int
  Level :: int
  Task :: int
  Opcode :: int
  Keywords :: string
  TimeCreated_SystemTime :: string
  EventRecordID :: int
  ActivityID :: string
  RelatedActivityID :: string
  ProcessID :: uint32
  ThreadID :: uint32
  Channel :: string
  Computer :: string
  UserID :: string
  UserData_InnerXML :: bytes
  EventData_InnerXML :: bytes
  Message :: string
  LevelText :: string
  TaskText :: string
  OpcodeText :: string

text \<open>\<open>Event{}\<close>, every field at its zero value.\<close>

definition Event_zero :: Event where
  "Event_zero = \<lparr>Source_Name = [], EventID = 0, Version = 0, Level = 0, Task = 0, Opcode = 0,
     Keywords = [], TimeCreated_SystemTime = [], EventRecordID = 0, ActivityID = [],
     RelatedActivityID = [], ProcessID = 0, ThreadID = 0, Channel = [], Computer = [],
     UserID = [], UserData_InnerXML = [], EventData_InnerXML = [], Message = [],
     LevelText = [], TaskText = [], OpcodeText = []\<rparr>"

record EventField =
  Name :: string
  Value :: string

subsection \<open>The native interface and the library\<close>

datatype EvtFormatMessageFlag =
  EvtFormatMessageEvent | EvtFormatMessageLevel | EvtFormatMessageTask |
  EvtFormatMessageOpcode | EvtFormatMessageKeyword

text \<open>
  Every native call is written to a trace, with the arguments the code chooses. What a call
  answers may depend on all calls made before it: each entry of \<open>natives\<close> takes the
  trace so far. A call that fills a caller's buffer answers the items it writes; the code
  sees them through \<open>write_buffer\<close>, cut to the buffer it passed.
\<close>

datatype call =
  Call_CreateEvent
| Call_CloseHandle EvtHandle
| Call_EvtSubscribe EvtHandle string string
| Call_EvtNext EvtHandle uint32
| Call_EvtRender EvtHandle uint32
| Call_EvtOpenPublisherMetadata string uint32
| Call_EvtFormatMessage EvtHandle EvtHandle EvtFormatMessageFlag uint32
| Call_EvtClose EvtHandle
| Call_Now
| Call_QueryServiceConfig EvtHandle uint32

type_synonym trace = "call list"

record natives =
  CreateEvent :: "trace \<Rightarrow> EvtHandle \<times> error option"
  CloseHandle :: "trace \<Rightarrow> EvtHandle \<Rightarrow> error option"
  EvtSubscribe :: "trace \<Rightarrow> EvtHandle \<Rightarrow> string \<Rightarrow> string \<Rightarrow> EvtHandle \<times> error option"
  EvtNext :: "trace \<Rightarrow> EvtHandle \<Rightarrow> uint32 \<Rightarrow> error option \<times> EvtHandle list \<times> uint32"
  EvtRender :: "trace \<Rightarrow> EvtHandle \<Rightarrow> uint32 \<Rightarrow> error option \<times> bytes \<times> uint32"
  EvtOpenPublisherMetadata :: "trace \<Rightarrow> string \<Rightarrow> uint32 \<Rightarrow> EvtHandle \<times> error option"
  EvtFormatMessage ::
    "trace \<Rightarrow> EvtHandle \<Rightarrow> EvtHandle \<Rightarrow> EvtFormatMessageFlag \<Rightarrow> uint32
      \<Rightarrow> error option \<times> bytes \<times> uint32"
  EvtClose :: "trace \<Rightarrow> EvtHandle \<Rightarrow> error option"
  time_Now :: "trace \<Rightarrow> int"

text \<open>
  Pure functions the code calls and the sources do not hold: \<open>DecodeUTF16\<close> and
  \<open>UnrollXMLFields\<close> of the package, \<open>xml.Unmarshal\<close> (into the event passed,
  answering the event as far as it was filled), \<open>strings.TrimSpace\<close> and \<open>time.Parse\<close>
  of the Go library. Times are instants on an integer scale.
\<close>

record externals =
  DecodeUTF16 :: "bytes \<Rightarrow> bytes \<times> error option"
  xml_Unmarshal :: "bytes \<Rightarrow> Event \<Rightarrow> Event \<times> error option"
  UnrollXMLFields ::
    "bytes \<Rightarrow> (string \<rightharpoonup> int) \<Rightarrow> string \<Rightarrow> EventField list \<times> (string \<rightharpoonup> int)"
  strings_TrimSpace :: "string \<Rightarrow> string"
  time_Parse :: "string \<Rightarrow> string \<Rightarrow> int \<times> error option"

definition write_buffer :: "'a list \<Rightarrow> 'a list \<Rightarrow> 'a list" where
  "write_buffer written buffer = take (length buffer) written @ drop (length written) buffer"

text \<open>\<open>syscall.UTF16PtrFromString\<close> refuses a string with a NUL byte.\<close>

definition UTF16PtrFromString :: "string \<Rightarrow> string \<times> error option" where
  "UTF16PtrFromString s = (if CHR 0x00 \<in> set s then ([], Some EINVAL) else (s, None))"

subsection \<open>Library functions on strings\<close>

text \<open>
  \<open>strings.FieldsFunc\<close>, \<open>strings.Join\<close> and \<open>bytes.Trim\<close> as the code uses them, and
  the replacement \<open>regexp.MustCompile(`[\r\n]+`).ReplaceAllString(s, "|")\<close>. The
  separators are single bytes below 128, which are never part of a longer UTF-8 sequence:
  working on bytes gives what Go gives on runes.
\<close>

function strings_FieldsFunc :: "(char \<Rightarrow> bool) \<Rightarrow> string \<Rightarrow> string list" where
  "strings_FieldsFunc f [] = []"
| "strings_FieldsFunc f (c # cs) =
     (if f c then strings_FieldsFunc f cs
      else (c # takeWhile (\<lambda>x. \<not> f x) cs) #
             strings_FieldsFunc f (dropWhile (\<lambda>x. \<not> f x) cs))"
  by pat_completeness auto
termination
  by (relation "measure (\<lambda>(f, s). length s)")
     (auto simp: le_imp_less_Suc length_dropWhile_le)

fun strings_Join :: "string list \<Rightarrow> string \<Rightarrow> string" where
  "strings_Join [] sep = []"
| "strings_Join [a] sep = a"
| "strings_Join (a # b # rest) sep = a @ sep @ strings_Join (b # rest) sep"

definition bytes_Trim :: "bytes \<Rightarrow> string \<Rightarrow> bytes" where
  "bytes_Trim s cutset =
     rev (dropWhile (\<lambda>c. c \<in> set cutset) (rev (dropWhile (\<lambda>c. c \<in> set cutset) s)))"

definition is_crlf :: "char \<Rightarrow> bool" where
  "is_crlf c = (c = CHR 0x0D \<or> c = CHR 0x0A)"

function crlfRe_ReplaceAllString :: "string \<Rightarrow> string \<Rightarrow> string" where
  "crlfRe_ReplaceAllString [] repl = []"
| "crlfRe_ReplaceAllString (c # cs) repl =
     (if is_crlf c then repl @ crlfRe_ReplaceAllString (dropWhile is_crlf cs) repl
      else c # crlfRe_ReplaceAllString cs repl)"
  by pat_completeness auto
termination
  by (relation "measure (\<lambda>(s, r). length s)")
     (auto simp: le_imp_less_Suc length_dropWhile_le)

subsection \<open>Formatting the text of an event\<close>

text \<open>
  \<open>formatEventString\<close> asks \<open>_EvtFormatMessage\<close> for the size with no buffer, allocates
  twice the characters answered (\<open>bufferUsed *= 2\<close> on a \<open>uint32\<close>) and calls again.
  \<open>&buffer[0]\<close> panics on an empty buffer, \<open>buffer[:bufferUsed]\<close> beyond its length.
\<close>

definition formatEventString ::
  "natives \<Rightarrow> externals \<Rightarrow> EvtFormatMessageFlag \<Rightarrow> EvtHandle \<Rightarrow> EvtHandle \<Rightarrow> trace
    \<Rightarrow> (string \<times> error option) outcome \<times> trace" where
  "formatEventString api ext messageFlag eventHandle publisherHandle t =
     (let (err, written, bufferUsed) =
            EvtFormatMessage api t publisherHandle eventHandle messageFlag 0;
          t1 = t @ [Call_EvtFormatMessage publisherHandle eventHandle messageFlag 0]
      in if err \<noteq> None \<and> err \<noteq> Some ERROR_INSUFFICIENT_BUFFER then (Done ([], err), t1)
         else
           let bufferUsed = bufferUsed * 2;
               buffer = replicate (unat bufferUsed) (CHR 0x00)
           in if buffer = [] then (Panic, t1)
              else
                let bufferSize = (word_of_nat (length buffer div 2) :: uint32);
                    (err, written, bufferUsed) =
                      EvtFormatMessage api t1 publisherHandle eventHandle messageFlag bufferSize;
                    t2 = t1 @ [Call_EvtFormatMessage publisherHandle eventHandle messageFlag
                                 bufferSize];
                    buffer = write_buffer written buffer;
                    bufferUsed = bufferUsed * 2
                in if err \<noteq> None then (Done ([], err), t2)
                   else if length buffer < unat bufferUsed then (Panic, t2)
                   else
                     (case DecodeUTF16 ext (take (unat bufferUsed) buffer) of
                        (result, Some e) \<Rightarrow> (Done ([], Some e), t2)
                      | (result, None) \<Rightarrow>
                          if messageFlag = EvtFormatMessageKeyword then
                            (Done (strings_Join
                                     (strings_FieldsFunc (\<lambda>c. c = CHR 0x00) result) '','',
                                   None), t2)
                          else (Done (bytes_Trim result [CHR 0x00], None), t2)))"

subsection \<open>Rendering one event\<close>

definition openPublisherMetadata ::
  "natives \<Rightarrow> EvtHandle \<Rightarrow> string \<Rightarrow> uint32 \<Rightarrow> trace \<Rightarrow> (EvtHandle \<times> error option) \<times> trace" where
  "openPublisherMetadata api session publisherName lang t =
     (case UTF16PtrFromString publisherName of
        (p, Some e) \<Rightarrow> ((0, Some e), t)
      | (p, None) \<Rightarrow>
          let (h, err) = EvtOpenPublisherMetadata api t p lang;
              t1 = t @ [Call_EvtOpenPublisherMetadata p lang]
          in (case err of Some e \<Rightarrow> ((0, Some e), t1) | None \<Rightarrow> ((h, None), t1)))"

text \<open>
  One of the five "populating text values" steps of \<open>renderEvent\<close>: the event changes
  only when \<open>formatEventString\<close> returned no error; a panic ends the sequence.
\<close>

definition populate ::
  "natives \<Rightarrow> externals \<Rightarrow> EvtFormatMessageFlag \<Rightarrow> EvtHandle \<Rightarrow> EvtHandle
    \<Rightarrow> (string \<Rightarrow> Event \<Rightarrow> Event) \<Rightarrow> Event outcome \<times> trace \<Rightarrow> Event outcome \<times> trace" where
  "populate api ext messageFlag eventHandle publisherHandle assign st =
     (case st of
        (Panic, t) \<Rightarrow> (Panic, t)
      | (Done event, t) \<Rightarrow>
          (case formatEventString api ext messageFlag eventHandle publisherHandle t of
             (Panic, t1) \<Rightarrow> (Panic, t1)
           | (Done (text, err), t1) \<Rightarrow>
               (Done (if err = None then assign text event else event), t1)))"

definition populate_text ::
  "natives \<Rightarrow> externals \<Rightarrow> EvtHandle \<Rightarrow> EvtHandle \<Rightarrow> Event \<Rightarrow> trace \<Rightarrow> Event outcome \<times> trace" where
  "populate_text api ext eventHandle publisherHandle event t =
     populate api ext EvtFormatMessageOpcode eventHandle publisherHandle
       (\<lambda>opcode ev. ev\<lparr>OpcodeText := opcode\<rparr>)
    (populate api ext EvtFormatMessageTask eventHandle publisherHandle
       (\<lambda>task ev. ev\<lparr>TaskText := task\<rparr>)
    (populate api ext EvtFormatMessageLevel eventHandle publisherHandle
       (\<lambda>level ev. ev\<lparr>LevelText := level\<rparr>)
    (populate api ext EvtFormatMessageEvent eventHandle publisherHandle
       (\<lambda>message ev.
          ev\<lparr>Message := crlfRe_ReplaceAllString (strings_TrimSpace ext message) ''|''\<rparr>)
    (populate api ext EvtFormatMessageKeyword eventHandle publisherHandle
       (\<lambda>keywords ev. ev\<lparr>Keywords := keywords\<rparr>)
       (Done event, t)))))"

text \<open>
  \<open>renderEvent\<close> has a pointer receiver: the native call writes into \<open>w.buf\<close>, which
  stays as written. \<open>&w.buf[0]\<close> panics on an empty buffer and \<open>w.buf[:bufferUsed]\<close>
  beyond its length. The deferred \<open>_EvtClose(publisherHandle)\<close> runs when the function
  leaves, also by a panic; its result is dropped.
\<close>

definition renderEvent ::
  "natives \<Rightarrow> externals \<Rightarrow> WinEventLog \<Rightarrow> EvtHandle \<Rightarrow> trace
    \<Rightarrow> (Event \<times> error option) outcome \<times> WinEventLog \<times> trace" where
  "renderEvent api ext w eventHandle t =
     (let event = Event_zero
      in if buf w = [] then (Panic, w, t)
         else
           let bufferSize = (word_of_nat (length (buf w)) :: uint32);
               (err, written, bufferUsed) = EvtRender api t eventHandle bufferSize;
               t1 = t @ [Call_EvtRender eventHandle bufferSize];
               w1 = w\<lparr>buf := write_buffer written (buf w)\<rparr>
           in (case err of
                 Some e \<Rightarrow> (Done (event, Some e), w1, t1)
               | None \<Rightarrow>
                   if length (buf w1) < unat bufferUsed then (Panic, w1, t1)
                   else
                     (case DecodeUTF16 ext (take (unat bufferUsed) (buf w1)) of
                        (eventXML, Some e) \<Rightarrow> (Done (event, Some e), w1, t1)
                      | (eventXML, None) \<Rightarrow>
                          (case xml_Unmarshal ext eventXML event of
                             (event, Some e) \<Rightarrow> (Done (event, None), w1, t1)
                           | (event, None) \<Rightarrow>
                               (case openPublisherMetadata api 0 (Source_Name event) (Locale w) t1 of
                                  ((publisherHandle, Some e), t2) \<Rightarrow> (Done (event, None), w1, t2)
                                | ((publisherHandle, None), t2) \<Rightarrow>
                                    (case populate_text api ext eventHandle publisherHandle event t2 of
                                       (Panic, t3) \<Rightarrow>
                                         (Panic, w1, t3 @ [Call_EvtClose publisherHandle])
                                     | (Done event, t3) \<Rightarrow>
                                         (Done (event, None), w1,
                                          t3 @ [Call_EvtClose publisherHandle])))))))"

subsection \<open>Pulling a batch of events\<close>

text \<open>
  \<open>eventHandles[:evtReturned]\<close> panics when \<open>evtReturned\<close> is beyond the five handles
  allocated.
\<close>

definition fetchEventHandles ::
  "natives \<Rightarrow> EvtHandle \<Rightarrow> trace \<Rightarrow> (EvtHandle list \<times> error option) outcome \<times> trace" where
  "fetchEventHandles api subsHandle t =
     (let eventsNumber = (5 :: uint32);
          eventHandles = replicate (unat eventsNumber) (0 :: EvtHandle);
          (err, written, evtReturned) = EvtNext api t subsHandle eventsNumber;
          t1 = t @ [Call_EvtNext subsHandle eventsNumber];
          eventHandles = write_buffer written eventHandles
      in (case err of
            Some e \<Rightarrow>
              if e = ERROR_INVALID_OPERATION \<and> evtReturned = 0
              then (Done ([], Some ERROR_NO_MORE_ITEMS), t1)
              else (Done ([], Some e), t1)
          | None \<Rightarrow>
              if length eventHandles < unat evtReturned then (Panic, t1)
              else (Done (take (unat evtReturned) eventHandles, None), t1)))"

fun fetchEvents_render ::
  "natives \<Rightarrow> externals \<Rightarrow> EvtHandle list \<Rightarrow> Event list \<Rightarrow> WinEventLog \<Rightarrow> trace
    \<Rightarrow> Event list outcome \<times> WinEventLog \<times> trace" where
  "fetchEvents_render api ext [] events w t = (Done events, w, t)"
| "fetchEvents_render api ext (eventHandle # rest) events w t =
     (if eventHandle \<noteq> 0 then
        (case renderEvent api ext w eventHandle t of
           (Panic, w1, t1) \<Rightarrow> (Panic, w1, t1)
         | (Done (event, err), w1, t1) \<Rightarrow>
             fetchEvents_render api ext rest
               (if err = None then events @ [event] else events) w1 t1)
      else fetchEvents_render api ext rest events w t)"

fun fetchEvents_close :: "natives \<Rightarrow> EvtHandle list \<Rightarrow> trace \<Rightarrow> error option \<times> trace" where
  "fetchEvents_close api [] t = (None, t)"
| "fetchEvents_close api (eventHandle # rest) t =
     (case EvtClose api t eventHandle of
        Some e \<Rightarrow> (Some e, t @ [Call_EvtClose eventHandle])
      | None \<Rightarrow> fetchEvents_close api rest (t @ [Call_EvtClose eventHandle]))"

definition fetchEvents ::
  "natives \<Rightarrow> externals \<Rightarrow> WinEventLog \<Rightarrow> EvtHandle \<Rightarrow> trace
    \<Rightarrow> (Event list \<times> error option) outcome \<times> WinEventLog \<times> trace" where
  "fetchEvents api ext w subsHandle t =
     (case fetchEventHandles api subsHandle t of
        (Panic, t1) \<Rightarrow> (Panic, w, t1)
      | (Done (eventHandles, Some e), t1) \<Rightarrow> (Done ([], Some e), w, t1)
      | (Done (eventHandles, None), t1) \<Rightarrow>
          (case fetchEvents_render api ext eventHandles [] w t1 of
             (Panic, w2, t2) \<Rightarrow> (Panic, w2, t2)
           | (Done events, w2, t2) \<Rightarrow>
               (case fetchEvents_close api eventHandles t2 of
                  (err, t3) \<Rightarrow> (Done (events, err), w2, t3))))"

subsection \<open>The poll cycle\<close>

definition evtSubscribe ::
  "natives \<Rightarrow> string \<Rightarrow> string \<Rightarrow> trace \<Rightarrow> (EvtHandle \<times> error option) \<times> trace" where
  "evtSubscribe api logName xquery t =
     (let (sigEvent, err) = CreateEvent api t;
          t1 = t @ [Call_CreateEvent]
      in (case err of
            Some e \<Rightarrow> ((0, Some e), t1)
          | None \<Rightarrow>
              (case
                 (case UTF16PtrFromString logName of
                    (logNamePtr, Some e) \<Rightarrow> ((0, Some e), t1)
                  | (logNamePtr, None) \<Rightarrow>
                      (case UTF16PtrFromString xquery of
                         (xqueryPtr, Some e) \<Rightarrow> ((0, Some e), t1)
                       | (xqueryPtr, None) \<Rightarrow>
                           let (subsHandle, err) =
                                 EvtSubscribe api t1 sigEvent logNamePtr xqueryPtr;
                               t2 = t1 @ [Call_EvtSubscribe sigEvent logNamePtr xqueryPtr]
                           in (case err of
                                 Some e \<Rightarrow> ((0, Some e), t2)
                               | None \<Rightarrow> ((subsHandle, None), t2))))
               of (r, t3) \<Rightarrow> (r, t3 @ [Call_CloseHandle sigEvent]))))"

definition createDescriptionFromEvent :: "externals \<Rightarrow> Event \<Rightarrow> string" where
  "createDescriptionFromEvent ext event =
     (let fieldsUsage = Map.empty;
          (fieldsEventData, usage) =
            UnrollXMLFields ext (EventData_InnerXML event) fieldsUsage ''_'';
          eventDataValues = map Value fieldsEventData;
          description = strings_Join eventDataValues ''|''
      in crlfRe_ReplaceAllString description ''|'')"

text \<open>What \<open>Gather\<close> hands to the accumulator and to the logger.\<close>

record Metric =
  measurement :: string
  m_fields :: "string \<rightharpoonup> iface"
  m_tags :: "string \<rightharpoonup> string"
  m_time :: int

datatype log_entry =
  Debug_subscription EvtHandle
| Error_getting_events error
| Warn_parsing_timestamp string error

record sink =
  metrics :: "Metric list"
  logs :: "log_entry list"

definition RFC3339Nano :: string where
  "RFC3339Nano = ''2006-01-02T15:04:05.999999999Z07:00''"

text \<open>The body of \<open>for _, event := range events\<close>: one record for each event.\<close>

fun Gather_events ::
  "natives \<Rightarrow> externals \<Rightarrow> Event list \<Rightarrow> trace \<Rightarrow> sink \<Rightarrow> trace \<times> sink" where
  "Gather_events api ext [] t out = (t, out)"
| "Gather_events api ext (event # rest) t out =
     (let eventTime = TimeCreated_SystemTime event;
          (parsed, err) = time_Parse ext RFC3339Nano eventTime;
          (timeStamp, t1, out1) =
            (case err of
               Some e \<Rightarrow>
                 (time_Now api t, t @ [Call_Now],
                  out\<lparr>logs := logs out @ [Warn_parsing_timestamp eventTime e]\<rparr>)
             | None \<Rightarrow> (parsed, t, out));
          description = createDescriptionFromEvent ext event;
          m = \<lparr>measurement = ''win_event'',
               m_fields = [''record_id'' \<mapsto> Int_v (EventRecordID event),
                           ''event_id'' \<mapsto> Int_v (EventID event),
                           ''level'' \<mapsto> Int_v (Level event),
                           ''message'' \<mapsto> String_v (Message event),
                           ''description'' \<mapsto> String_v description,
                           ''source'' \<mapsto> String_v (Source_Name event),
                           ''created'' \<mapsto> String_v eventTime],
               m_tags = [''eventlog_name'' \<mapsto> Channel event],
               m_time = timeStamp\<rparr>
      in Gather_events api ext rest t1 (out1\<lparr>metrics := metrics out1 @ [m]\<rparr>))"

text \<open>
  The loop of \<open>Gather\<close> runs until a pull fails; it need not end, and \<open>None\<close> is a
  poll cycle that does not return.
\<close>

partial_function (option) Gather_loop ::
  "natives \<Rightarrow> externals \<Rightarrow> WinEventLog \<Rightarrow> trace \<Rightarrow> sink
    \<Rightarrow> (error option outcome \<times> WinEventLog \<times> trace \<times> sink) option" where
  "Gather_loop api ext w t out =
     (case fetchEvents api ext w (subscription w) t of
        (Panic, w1, t1) \<Rightarrow> Some (Panic, w1, t1, out)
      | (Done (events, Some err), w1, t1) \<Rightarrow>
          if err = ERROR_NO_MORE_ITEMS then Some (Done None, w1, t1, out)
          else Some (Done (Some err), w1, t1,
                     out\<lparr>logs := logs out @ [Error_getting_events err]\<rparr>)
      | (Done (events, None), w1, t1) \<Rightarrow>
          (case Gather_events api ext events t1 out of
             (t2, out2) \<Rightarrow> Gather_loop api ext w1 t2 out2))"

definition Gather ::
  "natives \<Rightarrow> externals \<Rightarrow> WinEventLog \<Rightarrow> trace \<Rightarrow> sink
    \<Rightarrow> (error option outcome \<times> WinEventLog \<times> trace \<times> sink) option" where
  "Gather api ext w t out =
     (case
        (if subscription w = 0 then
           (case evtSubscribe api (EventlogName w) (Query w) t of
              ((h, err), t1) \<Rightarrow> (w\<lparr>subscription := h\<rparr>, t1, err))
         else (w, t, None))
      of (w1, t1, err) \<Rightarrow>
        (case err of
           Some e \<Rightarrow> Some (Done (Some (SubscriptionError e)), w1, t1, out)
         | None \<Rightarrow>
             Gather_loop api ext w1 t1
               (out\<lparr>logs := logs out @ [Debug_subscription (subscription w1)]\<rparr>)))"

declare Gather_loop.simps [code]

text \<open>
  Two views of a poll cycle, for stating where in it something happens. \<open>Gather_start\<close>
  is \<open>Gather\<close> up to its loop: the subscription, made if there is none, and the debug
  line. \<open>Gather_batches k\<close> is the loop over \<open>k\<close> batches that are pulled and closed
  without error, with their records emitted: the state in which the next pull is made.
\<close>

definition Gather_start ::
  "natives \<Rightarrow> WinEventLog \<Rightarrow> trace \<Rightarrow> sink \<Rightarrow> (WinEventLog \<times> trace \<times> sink) option" where
  "Gather_start api w t out =
     (if subscription w = 0 then
        (case evtSubscribe api (EventlogName w) (Query w) t of
           ((h, Some e), t1) \<Rightarrow> None
         | ((h, None), t1) \<Rightarrow>
             Some (w\<lparr>subscription := h\<rparr>, t1,
                   out\<lparr>logs := logs out @ [Debug_subscription h]\<rparr>))
      else Some (w, t, out\<lparr>logs := logs out @ [Debug_subscription (subscription w)]\<rparr>))"

fun Gather_batches ::
  "nat \<Rightarrow> natives \<Rightarrow> externals \<Rightarrow> WinEventLog \<Rightarrow> trace \<Rightarrow> sink
    \<Rightarrow> (WinEventLog \<times> trace \<times> sink) option" where
  "Gather_batches 0 api ext w t out = Some (w, t, out)"
| "Gather_batches (Suc k) api ext w t out =
     (case fetchEvents api ext w (subscription w) t of
        (Done (events, None), w1, t1) \<Rightarrow>
          (case Gather_events api ext events t1 out of
             (t2, out2) \<Rightarrow> Gather_batches k api ext w1 t2 out2)
      | (Done (events, Some err), w1, t1) \<Rightarrow> None
      | (Panic, w1, t1) \<Rightarrow> None)"


subsection \<open>The configuration of a service (plugin \<open>win_services\<close>)\<close>

text \<open>
  \<open>DisplayNameStartType\<close>, in the first half of the file, is the one function that grows
  a buffer in a loop: it starts with 1024 bytes and, while \<open>windows.QueryServiceConfig\<close>
  reports an insufficient buffer and a size \<open>n\<close> above the buffer it was given, calls
  again with \<open>n\<close> bytes. The native call is a parameter; it answers the error, the
  display name and start type it wrote, and the size. \<open>&b[0]\<close> panics on an empty
  buffer, and \<open>err.(syscall.Errno)\<close> on an error of another type. The size grows at
  each turn, so the loop ends.
\<close>

type_synonym QueryServiceConfig =
  "trace \<Rightarrow> EvtHandle \<Rightarrow> uint32 \<Rightarrow> error option \<times> (string \<times> uint32) \<times> uint32"

lemma uint32_grows:
  fixes n n' :: uint32
  assumes "\<not> n' \<le> n"
  shows "(4294967296 :: nat) - unat n' < 4294967296 - unat n"
proof -
  have "unat n < unat n'" using assms by (simp add: word_le_nat_alt)
  moreover have "unat n' < 4294967296" using unsigned_less [of n'] by simp
  ultimately show ?thesis by simp
qed

function DisplayNameStartType_from ::
  "QueryServiceConfig \<Rightarrow> EvtHandle \<Rightarrow> uint32 \<Rightarrow> trace
    \<Rightarrow> (string \<times> uint32 \<times> error option) outcome \<times> trace" where
  "DisplayNameStartType_from query h n t =
     (if n = 0 then (Panic, t)
      else
        (case query t h n of
           (None, p, n') \<Rightarrow>
             (Done (fst p, snd p, None), t @ [Call_QueryServiceConfig h n])
         | (Some e, p, n') \<Rightarrow>
             (case e of
                Errno code \<Rightarrow>
                  if e \<noteq> ERROR_INSUFFICIENT_BUFFER
                  then (Done ([], 0, Some e), t @ [Call_QueryServiceConfig h n])
                  else if n' \<le> n
                  then (Done ([], 0, Some e), t @ [Call_QueryServiceConfig h n])
                  else DisplayNameStartType_from query h n' (t @ [Call_QueryServiceConfig h n])
              | EINVAL \<Rightarrow> (Done ([], 0, Some e), t @ [Call_QueryServiceConfig h n])
              | _ \<Rightarrow> (Panic, t @ [Call_QueryServiceConfig h n]))))"
  by pat_completeness auto
termination
  by (relation "measure (\<lambda>(query, h, n, t). 2 ^ 32 - unat n)") (auto simp: uint32_grows)

definition DisplayNameStartType ::
  "QueryServiceConfig \<Rightarrow> EvtHandle \<Rightarrow> trace
    \<Rightarrow> (string \<times> uint32 \<times> error option) outcome \<times> trace" where
  "DisplayNameStartType query h t = DisplayNameStartType_from query h 1024 t"

subsection \<open>What the native layer promises\<close>

text \<open>
  The contract of \<open>EvtFormatMessage\<close> on sizes, counted in characters: a call that reports
  an insufficient buffer answers a required size above the size it was given, and below
  \<open>2 ^ 31\<close>; a call that succeeds has used at least one character (the terminating NUL)
  and no more than the buffer holds. It is a hypothesis where a theorem needs
  \<open>formatEventString\<close> to return.
\<close>

definition EvtFormatMessage_contract :: "natives \<Rightarrow> bool" where
  "EvtFormatMessage_contract api =
     (\<forall>t ph eh flag size err written used.
        EvtFormatMessage api t ph eh flag size = (err, written, used) \<longrightarrow>
          (err = Some ERROR_INSUFFICIENT_BUFFER \<longrightarrow> size < used \<and> unat used < 2 ^ 31) \<and>
          (err = None \<longrightarrow> 0 < used \<and> used \<le> size))"

text \<open>An event without its five text-resolution fields.\<close>

definition system_part :: "Event \<Rightarrow> Event" where
  "system_part event =
     event\<lparr>Keywords := [], Message := [], LevelText := [], TaskText := [], OpcodeText := []\<rparr>"

section \<open>A sample environment\<close>

text \<open>
  Concrete values for the examples below. \<open>sample_Match\<close> agrees with \<open>filepath.Match\<close>
  on a pattern of plain characters with at most one final star and on a name without a path
  separator. The sample subscription delivers one batch of two handles: handle 12 cannot be
  rendered, handle 11 renders to \<open>sample_xml\<close> in UTF-16, which \<open>xml.Unmarshal\<close> reads as
  \<open>sample_event\<close>. After that batch the pull reports the end of the backlog.
\<close>

definition sample_Match :: matcher where
  "sample_Match pattern name =
     (if pattern \<noteq> [] \<and> last pattern = CHR ''*''
      then (butlast pattern = take (length pattern - 1) name, None)
      else (pattern = name, None))"

definition sample_config :: WinEventLog where
  "sample_config = \<lparr>Locale = 0, EventlogName = ''Application'', Query = ''*'',
     ProcessUserData = True, ProcessEventData = True, Separator = ''_'',
     OnlyFirstLineOfMessage = True, TimeStampFromEvent = True,
     EventTags = [''Level*''], EventFields = [''*''], ExcludeFields = [],
     ExcludeEmpty = [], subscription = 0, buf = replicate 16384 (CHR 0x00)\<rparr>"

definition utf16le :: "string \<Rightarrow> bytes" where
  "utf16le s = concat (map (\<lambda>c. [c, CHR 0x00]) s)"

fun sample_DecodeUTF16 :: "bytes \<Rightarrow> bytes \<times> error option" where
  "sample_DecodeUTF16 [] = ([], None)"
| "sample_DecodeUTF16 [a] = ([], Some (ErrorText ''must have even length byte slice''))"
| "sample_DecodeUTF16 (a # b # rest) =
     (case sample_DecodeUTF16 rest of
        (r, None) \<Rightarrow> (a # r, None)
      | (r, Some e) \<Rightarrow> ([], Some e))"

definition sample_xml :: string where
  "sample_xml = ''<Event><System><Level>2</Level></System></Event>''"

definition sample_event :: Event where
  "sample_event = Event_zero\<lparr>Source_Name := ''App'', EventID := 1000, Level := 2,
     TimeCreated_SystemTime := ''2020-01-01T00:00:00Z'', EventRecordID := 42,
     Channel := ''Application'', Computer := ''host'',
     EventData_InnerXML := ''<Data>disk</Data><Data>C:</Data>''\<rparr>"

definition sample_text :: "EvtFormatMessageFlag \<Rightarrow> string" where
  "sample_text flag =
     (case flag of
        EvtFormatMessageEvent \<Rightarrow> ''Disk full''
      | EvtFormatMessageLevel \<Rightarrow> ''Error''
      | EvtFormatMessageTask \<Rightarrow> ''None''
      | EvtFormatMessageOpcode \<Rightarrow> ''Info''
      | EvtFormatMessageKeyword \<Rightarrow> ''Classic'')"

definition sample_api :: natives where
  "sample_api = \<lparr>
     CreateEvent = (\<lambda>t. (100, None)),
     CloseHandle = (\<lambda>t h. None),
     EvtSubscribe = (\<lambda>t sigEvent logName xquery. (200, None)),
     EvtNext = (\<lambda>t subs n.
       if Call_EvtNext subs n \<in> set t then (Some ERROR_INVALID_OPERATION, [], 0)
       else (None, [12, 11], 2)),
     EvtRender = (\<lambda>t h size.
       if h \<noteq> 11 then (Some (Errno 13), [], 0)
       else if unat size < length (utf16le sample_xml)
       then (Some ERROR_INSUFFICIENT_BUFFER, [], word_of_nat (length (utf16le sample_xml)))
       else (None, utf16le sample_xml, word_of_nat (length (utf16le sample_xml)))),
     EvtOpenPublisherMetadata = (\<lambda>t name lang.
       if name = ''App'' then (300, None) else (0, Some (Errno 15002))),
     EvtFormatMessage = (\<lambda>t ph eh flag size.
       if unat size < length (sample_text flag) + 1
       then (Some ERROR_INSUFFICIENT_BUFFER, [], word_of_nat (length (sample_text flag) + 1))
       else (None, utf16le (sample_text flag) @ [CHR 0x00, CHR 0x00],
             word_of_nat (length (sample_text flag) + 1))),
     EvtClose = (\<lambda>t h. None),
     time_Now = (\<lambda>t. 1600000000)\<rparr>"

definition sample_ext :: externals where
  "sample_ext = \<lparr>
     DecodeUTF16 = sample_DecodeUTF16,
     xml_Unmarshal = (\<lambda>data event.
       if data = sample_xml then (sample_event, None)
       else (event, Some (ErrorText ''XML syntax error''))),
     UnrollXMLFields = (\<lambda>data usage sep.
       if data = ''<Data>disk</Data><Data>C:</Data>''
       then ([\<lparr>Name = ''Data'', Value = ''disk''\<rparr>,
              \<lparr>Name = ''Data'' @ sep @ ''1'', Value = ''C:''\<rparr>], usage)
       else ([], usage)),
     strings_TrimSpace = (\<lambda>s.
       rev (dropWhile (\<lambda>c. c = CHR '' '') (rev (dropWhile (\<lambda>c. c = CHR '' '') s)))),
     time_Parse = (\<lambda>layout v.
       if v = ''2020-01-01T00:00:00Z'' then (1577836800, None)
       else (0, Some (ErrorText ''cannot parse'')))\<rparr>"

definition sample_sink :: sink where
  "sample_sink = \<lparr>metrics = [], logs = []\<rparr>"


text \<open>What the sample run produces: the rendered event, its record and the native calls.\<close>

definition sample_rendered :: Event where
  "sample_rendered = sample_event\<lparr>Keywords := ''Classic'', Message := ''Disk full'',
     LevelText := ''Error'', TaskText := ''None'', OpcodeText := ''Info''\<rparr>"

definition sample_metric :: Metric where
  "sample_metric =
     \<lparr>measurement = ''win_event'',
      m_fields = [''record_id'' \<mapsto> Int_v 42,
                  ''event_id'' \<mapsto> Int_v 1000,
                  ''level'' \<mapsto> Int_v 2,
                  ''message'' \<mapsto> String_v ''Disk full'',
                  ''description'' \<mapsto> String_v ''disk|C:'',
                  ''source'' \<mapsto> String_v ''App'',
                  ''created'' \<mapsto> String_v ''2020-01-01T00:00:00Z''],
      m_tags = [''eventlog_name'' \<mapsto> ''Application''],
      m_time = 1577836800\<rparr>"

definition sample_text_trace :: trace where
  "sample_text_trace =
     [Call_EvtFormatMessage 300 11 EvtFormatMessageKeyword 0,
      Call_EvtFormatMessage 300 11 EvtFormatMessageKeyword 8,
      Call_EvtFormatMessage 300 11 EvtFormatMessageEvent 0,
      Call_EvtFormatMessage 300 11 EvtFormatMessageEvent 10,
      Call_EvtFormatMessage 300 11 EvtFormatMessageLevel 0,
      Call_EvtFormatMessage 300 11 EvtFormatMessageLevel 6,
      Call_EvtFormatMessage 300 11 EvtFormatMessageTask 0,
      Call_EvtFormatMessage 300 11 EvtFormatMessageTask 5,
      Call_EvtFormatMessage 300 11 EvtFormatMessageOpcode 0,
      Call_EvtFormatMessage 300 11 EvtFormatMessageOpcode 5]"

definition sample_batch_trace :: trace where
  "sample_batch_trace =
     [Call_EvtNext 200 5, Call_EvtRender 12 16384, Call_EvtRender 11 16384,
      Call_EvtOpenPublisherMetadata ''App'' 0] @ sample_text_trace @ [Call_EvtClose 300]"

definition sample_cycle_trace :: "string \<Rightarrow> string \<Rightarrow> trace" where
  "sample_cycle_trace logName xquery =
     [Call_CreateEvent, Call_EvtSubscribe 100 logName xquery, Call_CloseHandle 100] @
     sample_batch_trace @ [Call_EvtClose 12, Call_EvtClose 11, Call_EvtNext 200 5]"

text \<open>
  Variants of the sample: an event that needs 20000 bytes to render; formatting calls that
  fail (the keywords at the first call, the level at the second); a subscription with
  nothing to deliver; a publisher that cannot be opened; an event whose XML breaks off
  after the provider name; a handle that cannot be closed; and a close that fails with the
  code \<open>Gather\<close> reads as the end of the backlog.
\<close>

definition sample_api_big_event :: natives where
  "sample_api_big_event =
     sample_api\<lparr>EvtRender := (\<lambda>t h size.
       if unat size < 20000 then (Some ERROR_INSUFFICIENT_BUFFER, [], 20000)
       else (None, replicate 20000 (CHR 0x00), 20000))\<rparr>"

definition sample_api_text_errors :: natives where
  "sample_api_text_errors =
     sample_api\<lparr>EvtFormatMessage := (\<lambda>t ph eh flag size.
       if flag = EvtFormatMessageKeyword then (Some (Errno 15027), [], 0)
       else if flag = EvtFormatMessageLevel \<and> size \<noteq> 0 then (Some (Errno 15029), [], 0)
       else EvtFormatMessage sample_api t ph eh flag size)\<rparr>"

text \<open>A service whose configuration needs 4096 bytes, reported in two steps.\<close>

definition sample_query :: QueryServiceConfig where
  "sample_query t h n =
     (if unat n < 4096 then (Some ERROR_INSUFFICIENT_BUFFER, ([], 0), n * 2)
      else (None, (''Print Spooler'', 2), 300))"

definition sample_api_idle :: natives where
  "sample_api_idle =
     sample_api\<lparr>EvtNext := (\<lambda>t subs n. (Some ERROR_INVALID_OPERATION, [], 0))\<rparr>"

definition sample_api_no_publisher :: natives where
  "sample_api_no_publisher =
     sample_api\<lparr>EvtOpenPublisherMetadata := (\<lambda>t name lang. (0, Some (Errno 15002)))\<rparr>"

definition sample_ext_bad_xml :: externals where
  "sample_ext_bad_xml =
     sample_ext\<lparr>xml_Unmarshal := (\<lambda>data event.
       (event\<lparr>Source_Name := ''App''\<rparr>, Some (ErrorText ''unexpected EOF'')))\<rparr>"

definition sample_api_close_fails :: natives where
  "sample_api_close_fails =
     sample_api\<lparr>EvtClose := (\<lambda>t h. if h = 12 then Some (Errno 6) else None)\<rparr>"

definition sample_api_close_sentinel :: natives where
  "sample_api_close_sentinel =
     sample_api\<lparr>EvtClose := (\<lambda>t h. if h = 12 then Some ERROR_NO_MORE_ITEMS else None)\<rparr>"


section \<open>Classification of field names\<close>

lemma shouldExclude_range_iff:
  "shouldExclude_range Match ps field = (\<exists>p\<in>set ps. fst (Match p field))"
  by (induction ps) auto

lemma shouldProcessField_fields_eq:
  "shouldProcessField_fields Match w ps field =
     (if \<exists>p\<in>set ps. fst (Match p field) then
        (if shouldExclude Match w field then (False, ''excluded'') else (True, ''fields''))
      else (False, ''excluded''))"
  by (induction ps) auto

lemma shouldProcessField_tags_eq:
  "shouldProcessField_tags Match w ps field =
     (if \<exists>p\<in>set ps. fst (Match p field) then (True, ''tags'')
      else shouldProcessField_fields Match w (EventFields w) field)"
  by (induction ps) auto

text \<open>
  Claim C2. \<open>shouldProcessField\<close> looks at the tag patterns first: a name that matches
  one of them is a tag, whatever the exclude patterns say. Otherwise a name that matches a
  field pattern is excluded when an exclude pattern matches it and is a field when none
  does, and a name that matches neither list is excluded. This holds for every matcher.
\<close>

theorem shouldProcessField_classification:
  "shouldProcessField Match w field =
     (if \<exists>pattern\<in>set (EventTags w). fst (Match pattern field) then (True, ''tags'')
      else if \<exists>pattern\<in>set (EventFields w). fst (Match pattern field) then
        (if \<exists>excludePattern\<in>set (ExcludeFields w). fst (Match excludePattern field)
         then (False, ''excluded'') else (True, ''fields''))
      else (False, ''excluded''))"
  by (simp add: shouldProcessField_def shouldProcessField_tags_eq
      shouldProcessField_fields_eq shouldExclude_def shouldExclude_range_iff)

text \<open>
  The four cases at a concrete configuration: \<open>LevelText\<close> is a tag although it is
  listed for exclusion, \<open>TimeCreated\<close> is an excluded field, \<open>Message\<close> is a field, and
  with the field patterns narrowed to \<open>Msg*\<close> the name \<open>Other\<close> is in neither list.
\<close>

theorem shouldProcessField_classification_witness:
  "shouldProcessField sample_Match
     (sample_config\<lparr>ExcludeFields := [''LevelText'', ''TimeCreated'']\<rparr>) ''LevelText''
     = (True, ''tags'') \<and>
   shouldProcessField sample_Match
     (sample_config\<lparr>ExcludeFields := [''LevelText'', ''TimeCreated'']\<rparr>) ''TimeCreated''
     = (False, ''excluded'') \<and>
   shouldProcessField sample_Match
     (sample_config\<lparr>ExcludeFields := [''LevelText'', ''TimeCreated'']\<rparr>) ''Message''
     = (True, ''fields'') \<and>
   shouldProcessField sample_Match (sample_config\<lparr>EventFields := [''Msg*'']\<rparr>) ''Other''
     = (False, ''excluded'')"
  by (simp add: shouldProcessField_classification sample_config_def sample_Match_def)

section \<open>Suppression of empty values\<close>

lemma shouldExcludeEmptyField_range_True:
  "shouldExcludeEmptyField_range Match ps field fieldType fieldValue = Done True \<Longrightarrow>
   (\<exists>p\<in>set ps. fst (Match p field)) \<and>
   (fieldType = ''string'' \<and> fieldValue = String_v [] \<or>
    fieldType = ''int'' \<and> fieldValue = Int_v 0 \<or>
    fieldType = ''uint32'' \<and> fieldValue = Uint32_v 0)"
  by (induction ps) (auto split: if_splits iface.splits)

lemma shouldExcludeEmptyField_range_other:
  "fieldType \<noteq> ''string'' \<Longrightarrow> fieldType \<noteq> ''int'' \<Longrightarrow> fieldType \<noteq> ''uint32'' \<Longrightarrow>
   shouldExcludeEmptyField_range Match ps field fieldType fieldValue = Done False"
  by (induction ps) auto

lemma shouldExcludeEmptyField_range_zero:
  "\<exists>p\<in>set ps. fst (Match p field) \<Longrightarrow>
   fieldType = ''string'' \<and> fieldValue = String_v [] \<or>
   fieldType = ''int'' \<and> fieldValue = Int_v 0 \<or>
   fieldType = ''uint32'' \<and> fieldValue = Uint32_v 0 \<Longrightarrow>
   shouldExcludeEmptyField_range Match ps field fieldType fieldValue = Done True"
  by (induction ps) auto

text \<open>
  Claim C9. \<open>shouldExcludeEmptyField\<close> returns true only for a name that matches an
  exclude-empty pattern and a value that is the empty string, the \<open>int\<close> 0 or the
  \<open>uint32\<close> 0; with any other \<open>fieldType\<close> it returns false. The third part adds that
  it does return true in each of the three cases.
\<close>

theorem shouldExcludeEmptyField_suppression:
  "(shouldExcludeEmptyField Match w field fieldType fieldValue = Done True \<longrightarrow>
      (\<exists>pattern\<in>set (ExcludeEmpty w). fst (Match pattern field)) \<and>
      (fieldType = ''string'' \<and> fieldValue = String_v [] \<or>
       fieldType = ''int'' \<and> fieldValue = Int_v 0 \<or>
       fieldType = ''uint32'' \<and> fieldValue = Uint32_v 0)) \<and>
   (fieldType \<noteq> ''string'' \<and> fieldType \<noteq> ''int'' \<and> fieldType \<noteq> ''uint32'' \<longrightarrow>
      shouldExcludeEmptyField Match w field fieldType fieldValue = Done False) \<and>
   ((\<exists>pattern\<in>set (ExcludeEmpty w). fst (Match pattern field)) \<and>
    (fieldType = ''string'' \<and> fieldValue = String_v [] \<or>
     fieldType = ''int'' \<and> fieldValue = Int_v 0 \<or>
     fieldType = ''uint32'' \<and> fieldValue = Uint32_v 0) \<longrightarrow>
      shouldExcludeEmptyField Match w field fieldType fieldValue = Done True)"
  unfolding shouldExcludeEmptyField_def
  using shouldExcludeEmptyField_range_True [of Match "ExcludeEmpty w" field fieldType fieldValue]
    shouldExcludeEmptyField_range_other [of fieldType Match "ExcludeEmpty w" field fieldValue]
    shouldExcludeEmptyField_range_zero [of "ExcludeEmpty w" Match field fieldType fieldValue]
  by blast

text \<open>
  With \<open>UserID\<close> among the exclude-empty patterns: an empty \<open>UserID\<close> is suppressed, a
  non-empty one and one of another type are not, and neither is an empty \<open>Computer\<close>.
\<close>

theorem shouldExcludeEmptyField_suppression_witness:
  "(\<exists>pattern\<in>set (ExcludeEmpty (sample_config\<lparr>ExcludeEmpty := [''Task'', ''UserID'']\<rparr>)).
      fst (sample_Match pattern ''UserID'')) \<and>
   shouldExcludeEmptyField sample_Match (sample_config\<lparr>ExcludeEmpty := [''Task'', ''UserID'']\<rparr>)
     ''UserID'' ''string'' (String_v []) = Done True \<and>
   shouldExcludeEmptyField sample_Match (sample_config\<lparr>ExcludeEmpty := [''Task'', ''UserID'']\<rparr>)
     ''UserID'' ''string'' (String_v ''S-1-5-18'') = Done False \<and>
   shouldExcludeEmptyField sample_Match (sample_config\<lparr>ExcludeEmpty := [''Task'', ''UserID'']\<rparr>)
     ''UserID'' ''time.Time'' Other_v = Done False \<and>
   shouldExcludeEmptyField sample_Match (sample_config\<lparr>ExcludeEmpty := [''Task'', ''UserID'']\<rparr>)
     ''Computer'' ''string'' (String_v []) = Done False"
proof -
  let ?w = "sample_config\<lparr>ExcludeEmpty := [''Task'', ''UserID'']\<rparr>"
  have m: "\<exists>pattern\<in>set (ExcludeEmpty ?w). fst (sample_Match pattern ''UserID'')"
    by (simp add: sample_Match_def)
  have zero: "shouldExcludeEmptyField sample_Match ?w ''UserID'' ''string'' (String_v []) = Done True"
    using shouldExcludeEmptyField_suppression [of sample_Match ?w "''UserID''" "''string''" "String_v []"] m
    by blast
  have other: "shouldExcludeEmptyField sample_Match ?w ''UserID'' ''time.Time'' Other_v = Done False"
    using shouldExcludeEmptyField_suppression [of sample_Match ?w "''UserID''" "''time.Time''" Other_v]
    by simp
  have rest: "shouldExcludeEmptyField sample_Match ?w ''UserID'' ''string'' (String_v ''S-1-5-18'')
        = Done False \<and>
      shouldExcludeEmptyField sample_Match ?w ''Computer'' ''string'' (String_v []) = Done False"
    by (simp add: shouldExcludeEmptyField_def sample_Match_def)
  from m zero other rest show ?thesis by blast
qed

section \<open>Sized buffers\<close>

lemma length_write_buffer: "length (write_buffer written buffer) = length buffer"
  by (simp add: write_buffer_def)

lemma renderEvent_native_error:
  assumes "buf w \<noteq> []"
    and "EvtRender api t eh (word_of_nat (length (buf w))) = (Some e, written, used)"
  shows "renderEvent api ext w eh t =
    (Done (Event_zero, Some e), w\<lparr>buf := write_buffer written (buf w)\<rparr>,
     t @ [Call_EvtRender eh (word_of_nat (length (buf w)))])"
  using assms by (simp add: renderEvent_def Let_def)

lemma formatEventString_probe_error:
  assumes "EvtFormatMessage api t ph eh flag 0 = (err1, written1, used1)"
    and "err1 \<noteq> None" and "err1 \<noteq> Some ERROR_INSUFFICIENT_BUFFER"
  shows "formatEventString api ext flag eh ph t =
    (Done ([], err1), t @ [Call_EvtFormatMessage ph eh flag 0])"
  using assms by (simp add: formatEventString_def Let_def)

lemma formatEventString_two_calls:
  assumes "EvtFormatMessage api t ph eh flag 0 = (err1, written1, used1)"
    and "err1 = None \<or> err1 = Some ERROR_INSUFFICIENT_BUFFER"
    and "used1 * 2 \<noteq> 0"
  shows "snd (formatEventString api ext flag eh ph t) =
    t @ [Call_EvtFormatMessage ph eh flag 0,
         Call_EvtFormatMessage ph eh flag (word_of_nat (unat (used1 * 2) div 2))]"
  using assms
  by (auto simp: formatEventString_def Let_def unat_eq_0 split: prod.splits option.splits)

lemma formatEventString_retry_error:
  assumes "EvtFormatMessage api t ph eh flag 0 = (err1, written1, used1)"
    and "err1 = None \<or> err1 = Some ERROR_INSUFFICIENT_BUFFER"
    and "used1 * 2 \<noteq> 0"
    and "EvtFormatMessage api (t @ [Call_EvtFormatMessage ph eh flag 0]) ph eh flag
           (word_of_nat (unat (used1 * 2) div 2)) = (Some e2, written2, used2)"
  shows "fst (formatEventString api ext flag eh ph t) = Done ([], Some e2)"
  using assms
  by (auto simp: formatEventString_def Let_def unat_eq_0 split: prod.splits option.splits)

lemma double_no_wrap:
  fixes used :: uint32
  assumes "unat used < 2 ^ 31"
  shows "unat (used * 2) = 2 * unat used"
  using assms by (simp add: unat_word_ariths)

lemma retry_size_exact:
  fixes used1 :: uint32
  assumes "unat used1 < 2 ^ 31"
  shows "word_of_nat (unat (used1 * 2) div 2) = used1"
  by (simp add: double_no_wrap [OF assms])

text \<open>
  The loop of \<open>DisplayNameStartType\<close>: a size that does not grow ends it with the
  error, and a size that grows is tried again, more than once if need be (here 1024,
  2048 and 4096 bytes).
\<close>

lemma DisplayNameStartType_no_progress:
  assumes "query t h 1024 = (Some ERROR_INSUFFICIENT_BUFFER, p, n')" and "n' \<le> 1024"
  shows "DisplayNameStartType query h t =
    (Done ([], 0, Some ERROR_INSUFFICIENT_BUFFER), t @ [Call_QueryServiceConfig h 1024])"
  using assms by (simp add: DisplayNameStartType_def ERROR_INSUFFICIENT_BUFFER_def)

lemma DisplayNameStartType_other_error:
  assumes "query t h 1024 = (Some (Errno code), p, n')"
    and "Errno code \<noteq> ERROR_INSUFFICIENT_BUFFER"
  shows "DisplayNameStartType query h t =
    (Done ([], 0, Some (Errno code)), t @ [Call_QueryServiceConfig h 1024])"
  using assms by (simp add: DisplayNameStartType_def)

lemma DisplayNameStartType_grows:
  assumes "n \<noteq> 0"
    and "query t h n = (Some ERROR_INSUFFICIENT_BUFFER, p, n')" and "n < n'"
  shows "DisplayNameStartType_from query h n t =
    DisplayNameStartType_from query h n' (t @ [Call_QueryServiceConfig h n])"
proof -
  from assms(3) have "\<not> n' \<le> n" by auto
  then show ?thesis
    using assms(1) assms(2)
    by (subst DisplayNameStartType_from.simps) (simp add: ERROR_INSUFFICIENT_BUFFER_def)
qed

lemma sample_DisplayNameStartType:
  "DisplayNameStartType sample_query 7 [] =
     (Done (''Print Spooler'', 2, None),
      [Call_QueryServiceConfig 7 1024, Call_QueryServiceConfig 7 2048,
       Call_QueryServiceConfig 7 4096])"
  by (simp add: DisplayNameStartType_def sample_query_def ERROR_INSUFFICIENT_BUFFER_def)

text \<open>
  Claim C3, as amended. The claim gives rendering and formatting one protocol: on an
  insufficient buffer, allocate the required size and retry once. The code has two
  different ones. \<open>formatEventString\<close> always asks first with no buffer; an error of that
  call other than "insufficient buffer" is returned with no second call; otherwise, when
  twice the size answered is not zero, it allocates that many bytes and calls exactly once
  more, with the size answered (as long as doubling does not wrap), and an error of the
  second call is returned as it is, with no third call. \<open>renderEvent\<close> calls the native
  renderer once with the buffer of the instance: any native error, an insufficient buffer
  included, is returned after that one call, and the buffer keeps its length. The
  assumptions only name what the native calls answer.
\<close>

theorem sized_buffer_calls:
  assumes probe: "EvtFormatMessage api t ph eh flag 0 = (err1, written1, used1)"
    and size: "bufferSize = word_of_nat (unat (used1 * 2) div 2)"
    and retry: "EvtFormatMessage api (t @ [Call_EvtFormatMessage ph eh flag 0]) ph eh flag
                  bufferSize = (err2, written2, used2)"
    and render: "EvtRender api t' eh' (word_of_nat (length (buf w))) = (rerr, written, used)"
  shows "(err1 \<noteq> None \<and> err1 \<noteq> Some ERROR_INSUFFICIENT_BUFFER \<longrightarrow>
            formatEventString api ext flag eh ph t =
              (Done ([], err1), t @ [Call_EvtFormatMessage ph eh flag 0])) \<and>
         ((err1 = None \<or> err1 = Some ERROR_INSUFFICIENT_BUFFER) \<and> used1 * 2 \<noteq> 0 \<longrightarrow>
            snd (formatEventString api ext flag eh ph t) =
              t @ [Call_EvtFormatMessage ph eh flag 0,
                   Call_EvtFormatMessage ph eh flag bufferSize] \<and>
            (unat used1 < 2 ^ 31 \<longrightarrow> bufferSize = used1) \<and>
            (err2 \<noteq> None \<longrightarrow>
               fst (formatEventString api ext flag eh ph t) = Done ([], err2))) \<and>
         (buf w \<noteq> [] \<and> rerr \<noteq> None \<longrightarrow>
            renderEvent api ext w eh' t' =
              (Done (Event_zero, rerr), w\<lparr>buf := write_buffer written (buf w)\<rparr>,
               t' @ [Call_EvtRender eh' (word_of_nat (length (buf w)))]) \<and>
            length (write_buffer written (buf w)) = length (buf w))"
proof (intro conjI impI)
  assume "err1 \<noteq> None \<and> err1 \<noteq> Some ERROR_INSUFFICIENT_BUFFER"
  then show "formatEventString api ext flag eh ph t =
      (Done ([], err1), t @ [Call_EvtFormatMessage ph eh flag 0])"
    using formatEventString_probe_error [OF probe] by blast
next
  assume "(err1 = None \<or> err1 = Some ERROR_INSUFFICIENT_BUFFER) \<and> used1 * 2 \<noteq> 0"
  then show "snd (formatEventString api ext flag eh ph t) =
      t @ [Call_EvtFormatMessage ph eh flag 0, Call_EvtFormatMessage ph eh flag bufferSize]"
    using formatEventString_two_calls [OF probe] size by blast
next
  assume "unat used1 < 2 ^ 31"
  then show "bufferSize = used1"
    using retry_size_exact size by blast
next
  assume a: "(err1 = None \<or> err1 = Some ERROR_INSUFFICIENT_BUFFER) \<and> used1 * 2 \<noteq> 0"
    and e: "err2 \<noteq> None"
  from e obtain e2 where e2: "err2 = Some e2" by blast
  show "fst (formatEventString api ext flag eh ph t) = Done ([], err2)"
    using formatEventString_retry_error [OF probe _ _ retry [unfolded size e2]] a e2 by blast
next
  assume a: "buf w \<noteq> [] \<and> rerr \<noteq> None"
  then obtain e where e: "rerr = Some e" by blast
  show "renderEvent api ext w eh' t' =
      (Done (Event_zero, rerr), w\<lparr>buf := write_buffer written (buf w)\<rparr>,
       t' @ [Call_EvtRender eh' (word_of_nat (length (buf w)))])"
    using renderEvent_native_error [OF _ render [unfolded e]] a e by blast
next
  show "length (write_buffer written (buf w)) = length (buf w)"
    by (rule length_write_buffer)
qed

text \<open>
  Three runs: the keywords cannot be formatted (one call, the error 15027 returned); the
  level needs six characters and the second call fails (two calls, the error 15029
  returned); an event needs 20000 bytes in a buffer of 16384 (one call, the
  insufficient-buffer error returned).
\<close>

theorem sized_buffer_calls_witness:
  "formatEventString sample_api_text_errors sample_ext EvtFormatMessageKeyword 11 300 [] =
     (Done ([], Some (Errno 15027)),
      [Call_EvtFormatMessage 300 11 EvtFormatMessageKeyword 0]) \<and>
   EvtFormatMessage sample_api_text_errors [] 300 11 EvtFormatMessageLevel 0 =
     (Some ERROR_INSUFFICIENT_BUFFER, [], 6) \<and>
   snd (formatEventString sample_api_text_errors sample_ext EvtFormatMessageLevel 11 300 []) =
     [Call_EvtFormatMessage 300 11 EvtFormatMessageLevel 0,
      Call_EvtFormatMessage 300 11 EvtFormatMessageLevel 6] \<and>
   fst (formatEventString sample_api_text_errors sample_ext EvtFormatMessageLevel 11 300 []) =
     Done ([], Some (Errno 15029)) \<and>
   renderEvent sample_api_big_event sample_ext sample_config 11 [] =
     (Done (Event_zero, Some ERROR_INSUFFICIENT_BUFFER), sample_config,
      [Call_EvtRender 11 16384])"
proof -
  let ?api = sample_api_text_errors
  have render: "EvtRender ?api [] 11 (word_of_nat (length (buf sample_config))) =
      (None, utf16le sample_xml, 96)"
    by (simp add: sample_api_text_errors_def sample_api_def sample_config_def utf16le_def
        sample_xml_def)
  have probe1: "EvtFormatMessage ?api [] 300 11 EvtFormatMessageKeyword 0 =
      (Some (Errno 15027), [], 0)"
    by (simp add: sample_api_text_errors_def)
  have size1: "(0 :: uint32) = word_of_nat (unat ((0 :: uint32) * 2) div 2)" by simp
  have retry1: "EvtFormatMessage ?api ([] @ [Call_EvtFormatMessage 300 11
      EvtFormatMessageKeyword 0]) 300 11 EvtFormatMessageKeyword 0 = (Some (Errno 15027), [], 0)"
    by (simp add: sample_api_text_errors_def)
  have 1: "formatEventString ?api sample_ext EvtFormatMessageKeyword 11 300 [] =
     (Done ([], Some (Errno 15027)), [Call_EvtFormatMessage 300 11 EvtFormatMessageKeyword 0])"
    using sized_buffer_calls [OF probe1 size1 retry1 render, where ext = sample_ext]
    by (simp add: ERROR_INSUFFICIENT_BUFFER_def)
  have probe2: "EvtFormatMessage ?api [] 300 11 EvtFormatMessageLevel 0 =
      (Some ERROR_INSUFFICIENT_BUFFER, [], 6)"
    by (simp add: sample_api_text_errors_def sample_api_def sample_text_def)
  have size2: "(6 :: uint32) = word_of_nat (unat ((6 :: uint32) * 2) div 2)" by simp
  have retry2: "EvtFormatMessage ?api ([] @ [Call_EvtFormatMessage 300 11
      EvtFormatMessageLevel 0]) 300 11 EvtFormatMessageLevel 6 = (Some (Errno 15029), [], 0)"
    by (simp add: sample_api_text_errors_def)
  have 2: "snd (formatEventString ?api sample_ext EvtFormatMessageLevel 11 300 []) =
       [Call_EvtFormatMessage 300 11 EvtFormatMessageLevel 0,
        Call_EvtFormatMessage 300 11 EvtFormatMessageLevel 6] \<and>
     fst (formatEventString ?api sample_ext EvtFormatMessageLevel 11 300 []) =
       Done ([], Some (Errno 15029))"
    using sized_buffer_calls [OF probe2 size2 retry2 render, where ext = sample_ext]
    by simp
  have render3: "EvtRender sample_api_big_event [] 11
      (word_of_nat (length (buf sample_config))) = (Some ERROR_INSUFFICIENT_BUFFER, [], 20000)"
    by (simp add: sample_api_big_event_def sample_config_def)
  have probe3: "EvtFormatMessage sample_api_big_event [] 300 11 EvtFormatMessageLevel 0 =
      (Some ERROR_INSUFFICIENT_BUFFER, [], 6)"
    by (simp add: sample_api_big_event_def sample_api_def sample_text_def)
  have retry3: "EvtFormatMessage sample_api_big_event ([] @ [Call_EvtFormatMessage 300 11
      EvtFormatMessageLevel 0]) 300 11 EvtFormatMessageLevel 6 =
      (None, utf16le ''Error'' @ [CHR 0x00, CHR 0x00], 6)"
    by (simp add: sample_api_big_event_def sample_api_def sample_text_def)
  have 3: "renderEvent sample_api_big_event sample_ext sample_config 11 [] =
     (Done (Event_zero, Some ERROR_INSUFFICIENT_BUFFER), sample_config,
      [Call_EvtRender 11 16384])"
    using sized_buffer_calls [OF probe3 size2 retry3 render3, where ext = sample_ext]
    by (simp add: sample_config_def write_buffer_def)
  from 1 probe2 2 3 show ?thesis by blast
qed

text \<open>
  The claim as it stands fails for rendering. The native call reports an insufficient
  buffer and the size it needs, 20000 bytes, above the 16384 of the buffer;
  \<open>renderEvent\<close> makes no second call with a larger buffer: the trace holds the one call,
  the configuration (and its buffer) is unchanged, and the error is returned.
\<close>

theorem renderEvent_no_retry_counterexample:
  "EvtRender sample_api_big_event [] 11 16384 = (Some ERROR_INSUFFICIENT_BUFFER, [], 20000) \<and>
   length (buf sample_config) = 16384 \<and>
   renderEvent sample_api_big_event sample_ext sample_config 11 [] =
     (Done (Event_zero, Some ERROR_INSUFFICIENT_BUFFER), sample_config,
      [Call_EvtRender 11 16384])"
proof -
  have nonempty: "buf sample_config \<noteq> []" by (simp add: sample_config_def)
  have render: "EvtRender sample_api_big_event [] 11
      (word_of_nat (length (buf sample_config))) = (Some ERROR_INSUFFICIENT_BUFFER, [], 20000)"
    by (simp add: sample_api_big_event_def sample_config_def)
  show ?thesis
    using renderEvent_native_error [OF nonempty render, of sample_ext]
    by (simp add: sample_config_def write_buffer_def sample_api_big_event_def)
qed

section \<open>Steps of the poll cycle\<close>

lemma fetchEventHandles_trace:
  "snd (fetchEventHandles api subsHandle t) = t @ [Call_EvtNext subsHandle 5]"
  by (simp add: fetchEventHandles_def Let_def split: prod.splits option.splits)

lemma fetchEventHandles_end:
  assumes "EvtNext api t subsHandle 5 = (Some ERROR_INVALID_OPERATION, written, 0)"
  shows "fetchEventHandles api subsHandle t =
    (Done ([], Some ERROR_NO_MORE_ITEMS), t @ [Call_EvtNext subsHandle 5])"
  using assms by (simp add: fetchEventHandles_def Let_def)

lemma fetchEvents_end:
  assumes "EvtNext api t subsHandle 5 = (Some ERROR_INVALID_OPERATION, written, 0)"
  shows "fetchEvents api ext w subsHandle t =
    (Done ([], Some ERROR_NO_MORE_ITEMS), w, t @ [Call_EvtNext subsHandle 5])"
  by (simp add: fetchEvents_def fetchEventHandles_end [OF assms])

lemma Gather_loop_end:
  assumes "EvtNext api t (subscription w) 5 = (Some ERROR_INVALID_OPERATION, written, 0)"
  shows "Gather_loop api ext w t out =
           Some (Done None, w, t @ [Call_EvtNext (subscription w) 5], out)"
  by (subst Gather_loop.simps) (simp add: fetchEvents_end [OF assms])

lemma Gather_subscribed:
  assumes "subscription w \<noteq> 0"
  shows "Gather api ext w t out =
    Gather_loop api ext w t (out\<lparr>logs := logs out @ [Debug_subscription (subscription w)]\<rparr>)"
  using assms by (simp add: Gather_def)

lemma Gather_subscribes:
  assumes "subscription w = 0"
    and "evtSubscribe api (EventlogName w) (Query w) t = ((h, None), t1)"
  shows "Gather api ext w t out =
    Gather_loop api ext (w\<lparr>subscription := h\<rparr>) t1
      (out\<lparr>logs := logs out @ [Debug_subscription h]\<rparr>)"
  using assms by (simp add: Gather_def)

lemma sample_evtSubscribe:
  assumes "CreateEvent api = CreateEvent sample_api"
    and "EvtSubscribe api = EvtSubscribe sample_api"
    and "CHR 0x00 \<notin> set logName" and "CHR 0x00 \<notin> set xquery"
  shows "evtSubscribe api logName xquery t =
    ((200, None), t @ [Call_CreateEvent, Call_EvtSubscribe 100 logName xquery,
                       Call_CloseHandle 100])"
  unfolding evtSubscribe_def assms(1) assms(2) using assms(3) assms(4)
  by (simp add: sample_api_def UTF16PtrFromString_def)

section \<open>Rendering keeps the event\<close>

lemma formatEventString_no_panic:
  assumes c: "EvtFormatMessage_contract api"
  shows "\<exists>s err. fst (formatEventString api ext flag eh ph t) = Done (s, err)"
proof -
  obtain err1 written1 used1 where
    probe: "EvtFormatMessage api t ph eh flag 0 = (err1, written1, used1)"
    by (metis prod_cases3)
  show ?thesis
  proof (cases "err1 \<noteq> None \<and> err1 \<noteq> Some ERROR_INSUFFICIENT_BUFFER")
    case True
    then show ?thesis using probe by (simp add: formatEventString_def Let_def)
  next
    case False
    have not_none: "err1 \<noteq> None"
    proof
      assume "err1 = None"
      with c probe have "0 < used1 \<and> used1 \<le> 0"
        unfolding EvtFormatMessage_contract_def by blast
      then show False by auto
    qed
    with False have insuff: "err1 = Some ERROR_INSUFFICIENT_BUFFER" by blast
    with c probe have pos: "0 < used1" and small: "unat used1 < 2 ^ 31"
      unfolding EvtFormatMessage_contract_def by blast+
    have len: "unat (used1 * 2) = 2 * unat used1"
      by (rule double_no_wrap [OF small])
    have nz: "unat used1 \<noteq> 0" using pos by (simp add: unat_gt_0)
    let ?t1 = "t @ [Call_EvtFormatMessage ph eh flag 0]"
    obtain err2 written2 used2 where
      retry: "EvtFormatMessage api ?t1 ph eh flag used1 = (err2, written2, used2)"
      by (metis prod_cases3)
    show ?thesis
    proof (cases err2)
      case (Some e2)
      then show ?thesis
        using probe insuff retry nz
        by (simp add: formatEventString_def Let_def len)
    next
      case None
      with c retry have "used2 \<le> used1"
        unfolding EvtFormatMessage_contract_def by blast
      then have le: "unat used2 \<le> unat used1" by (simp add: word_le_nat_alt)
      then have "unat used2 < 2 ^ 31" using small by simp
      then have len2: "unat (used2 * 2) = 2 * unat used2" by (rule double_no_wrap)
      show ?thesis
        using probe insuff retry nz None le
        by (simp add: formatEventString_def Let_def len len2 length_write_buffer
            split: prod.splits option.splits)
    qed
  qed
qed

lemma populate_system_part:
  assumes c: "EvtFormatMessage_contract api"
    and keep: "\<And>s ev. system_part (assign s ev) = system_part ev"
  shows "\<exists>ev' t'. populate api ext flag eh ph assign (Done ev, t) = (Done ev', t') \<and>
           system_part ev' = system_part ev"
proof -
  obtain s err where "fst (formatEventString api ext flag eh ph t) = Done (s, err)"
    using formatEventString_no_panic [OF c] by blast
  then obtain t1 where "formatEventString api ext flag eh ph t = (Done (s, err), t1)"
    by (metis prod.collapse)
  then show ?thesis
    by (simp add: populate_def keep)
qed

lemma populate_text_system_part:
  assumes c: "EvtFormatMessage_contract api"
  shows "\<exists>ev' t'. populate_text api ext eh ph event t = (Done ev', t') \<and>
           system_part ev' = system_part event"
proof -
  let ?k = "\<lambda>keywords ev. ev\<lparr>Keywords := keywords\<rparr>"
  let ?m = "\<lambda>message ev.
          ev\<lparr>Message := crlfRe_ReplaceAllString (strings_TrimSpace ext message) ''|''\<rparr>"
  let ?l = "\<lambda>level ev. ev\<lparr>LevelText := level\<rparr>"
  let ?ta = "\<lambda>task ev. ev\<lparr>TaskText := task\<rparr>"
  let ?o = "\<lambda>opcode ev. ev\<lparr>OpcodeText := opcode\<rparr>"
  have k: "\<And>s ev. system_part (?k s ev) = system_part ev"
    and m: "\<And>s ev. system_part (?m s ev) = system_part ev"
    and l: "\<And>s ev. system_part (?l s ev) = system_part ev"
    and ta: "\<And>s ev. system_part (?ta s ev) = system_part ev"
    and o: "\<And>s ev. system_part (?o s ev) = system_part ev"
    by (simp_all add: system_part_def)
  from populate_system_part [where assign = "?k", OF c k, where ext = ext
      and flag = EvtFormatMessageKeyword and eh = eh and ph = ph and ev = event and t = t]
  obtain e1 t1 where 1: "populate api ext EvtFormatMessageKeyword eh ph ?k (Done event, t)
      = (Done e1, t1)" and s1: "system_part e1 = system_part event"
    by blast
  from populate_system_part [where assign = "?m", OF c m, where ext = ext
      and flag = EvtFormatMessageEvent and eh = eh and ph = ph and ev = e1 and t = t1]
  obtain e2 t2 where 2: "populate api ext EvtFormatMessageEvent eh ph ?m (Done e1, t1)
      = (Done e2, t2)" and s2: "system_part e2 = system_part e1"
    by blast
  from populate_system_part [where assign = "?l", OF c l, where ext = ext
      and flag = EvtFormatMessageLevel and eh = eh and ph = ph and ev = e2 and t = t2]
  obtain e3 t3 where 3: "populate api ext EvtFormatMessageLevel eh ph ?l (Done e2, t2)
      = (Done e3, t3)" and s3: "system_part e3 = system_part e2"
    by blast
  from populate_system_part [where assign = "?ta", OF c ta, where ext = ext
      and flag = EvtFormatMessageTask and eh = eh and ph = ph and ev = e3 and t = t3]
  obtain e4 t4 where 4: "populate api ext EvtFormatMessageTask eh ph ?ta (Done e3, t3)
      = (Done e4, t4)" and s4: "system_part e4 = system_part e3"
    by blast
  from populate_system_part [where assign = "?o", OF c o, where ext = ext
      and flag = EvtFormatMessageOpcode and eh = eh and ph = ph and ev = e4 and t = t4]
  obtain e5 t5 where 5: "populate api ext EvtFormatMessageOpcode eh ph ?o (Done e4, t4)
      = (Done e5, t5)" and s5: "system_part e5 = system_part e4"
    by blast
  show ?thesis
    unfolding populate_text_def 1 2 3 4 5
    using s1 s2 s3 s4 s5 by simp
qed

text \<open>
  \<open>renderEvent\<close> after a render and a UTF-16 decoding that succeed: what is left is the
  XML decoding, the publisher and the text.
\<close>

lemma renderEvent_decoded:
  assumes nonempty: "buf w \<noteq> []"
    and render: "EvtRender api t eh (word_of_nat (length (buf w))) = (None, written, used)"
    and fits: "unat used \<le> length (buf w)"
    and decode: "DecodeUTF16 ext (take (unat used) (write_buffer written (buf w)))
                   = (eventXML, None)"
    and unmarshal: "xml_Unmarshal ext eventXML Event_zero = (event, xerr)"
  shows "renderEvent api ext w eh t =
    (case xerr of
       Some e \<Rightarrow> (Done (event, None), w\<lparr>buf := write_buffer written (buf w)\<rparr>,
                  t @ [Call_EvtRender eh (word_of_nat (length (buf w)))])
     | None \<Rightarrow>
        (case openPublisherMetadata api 0 (Source_Name event) (Locale w)
                (t @ [Call_EvtRender eh (word_of_nat (length (buf w)))]) of
           ((publisherHandle, Some e), t2) \<Rightarrow>
             (Done (event, None), w\<lparr>buf := write_buffer written (buf w)\<rparr>, t2)
         | ((publisherHandle, None), t2) \<Rightarrow>
             (case populate_text api ext eh publisherHandle event t2 of
                (Panic, t3) \<Rightarrow> (Panic, w\<lparr>buf := write_buffer written (buf w)\<rparr>,
                                t3 @ [Call_EvtClose publisherHandle])
              | (Done event, t3) \<Rightarrow>
                  (Done (event, None), w\<lparr>buf := write_buffer written (buf w)\<rparr>,
                   t3 @ [Call_EvtClose publisherHandle]))))"
  using assms
  by (simp add: renderEvent_def Let_def length_write_buffer split: option.splits prod.splits)

text \<open>
  Claim C5. Take an event handle whose render succeeds (within the buffer) and whose
  UTF-16 decoding succeeds. If the XML decoding fails, \<open>renderEvent\<close> returns the event
  as far as \<open>xml.Unmarshal\<close> filled it, with no error. If the XML is decoded and the
  publisher metadata cannot be opened, it returns the decoded event unchanged, so with
  every text-resolution field as the XML decoding left it, with no error. In no case does
  it return an error; and when the formatting calls keep to the contract of the native
  layer on sizes, it does return, an event that differs from the decoded one in the five
  text-resolution fields at most.
\<close>

theorem renderEvent_keeps_event:
  assumes nonempty: "buf w \<noteq> []"
    and render: "EvtRender api t eh (word_of_nat (length (buf w))) = (None, written, used)"
    and fits: "unat used \<le> length (buf w)"
    and decode: "DecodeUTF16 ext (take (unat used) (write_buffer written (buf w)))
                   = (eventXML, None)"
    and unmarshal: "xml_Unmarshal ext eventXML Event_zero = (event, xerr)"
    and publisher: "openPublisherMetadata api 0 (Source_Name event) (Locale w)
                      (t @ [Call_EvtRender eh (word_of_nat (length (buf w)))]) = ((ph, perr), t2)"
  shows "(xerr \<noteq> None \<longrightarrow>
            renderEvent api ext w eh t =
              (Done (event, None), w\<lparr>buf := write_buffer written (buf w)\<rparr>,
               t @ [Call_EvtRender eh (word_of_nat (length (buf w)))])) \<and>
         (xerr = None \<and> perr \<noteq> None \<longrightarrow>
            renderEvent api ext w eh t =
              (Done (event, None), w\<lparr>buf := write_buffer written (buf w)\<rparr>, t2)) \<and>
         (\<forall>ev err. fst (renderEvent api ext w eh t) = Done (ev, err) \<longrightarrow> err = None) \<and>
         (EvtFormatMessage_contract api \<longrightarrow>
            (\<exists>ev. fst (renderEvent api ext w eh t) = Done (ev, None) \<and>
                  system_part ev = system_part event))"
proof -
  note r = renderEvent_decoded [OF nonempty render fits decode unmarshal]
  have 1: "xerr \<noteq> None \<longrightarrow>
      renderEvent api ext w eh t =
        (Done (event, None), w\<lparr>buf := write_buffer written (buf w)\<rparr>,
         t @ [Call_EvtRender eh (word_of_nat (length (buf w)))])"
    by (auto simp: r)
  have 2: "xerr = None \<and> perr \<noteq> None \<longrightarrow>
      renderEvent api ext w eh t =
        (Done (event, None), w\<lparr>buf := write_buffer written (buf w)\<rparr>, t2)"
    by (auto simp: r publisher)
  have 3: "\<forall>ev err. fst (renderEvent api ext w eh t) = Done (ev, err) \<longrightarrow> err = None"
    by (auto simp: r split: option.splits prod.splits outcome.splits)
  have 4: "EvtFormatMessage_contract api \<longrightarrow>
      (\<exists>ev. fst (renderEvent api ext w eh t) = Done (ev, None) \<and>
            system_part ev = system_part event)"
  proof
    assume c: "EvtFormatMessage_contract api"
    obtain ev' t3 where "populate_text api ext eh ph event t2 = (Done ev', t3)"
      and "system_part ev' = system_part event"
      using populate_text_system_part [OF c] by blast
    then show "\<exists>ev. fst (renderEvent api ext w eh t) = Done (ev, None) \<and>
        system_part ev = system_part event"
      by (cases xerr; cases perr) (auto simp: r publisher)
  qed
  from 1 2 3 4 show ?thesis by blast
qed

text \<open>Facts of the sample environment, for any interface that answers as the sample does.\<close>

lemma sample_render:
  assumes "EvtRender api = EvtRender sample_api"
  shows "EvtRender api t 11 (word_of_nat (length (buf sample_config))) =
      (None, utf16le sample_xml, 96)"
  unfolding assms by (simp add: sample_api_def utf16le_def sample_xml_def sample_config_def)

lemma sample_decode:
  assumes "DecodeUTF16 ext = DecodeUTF16 sample_ext"
  shows "DecodeUTF16 ext (take (unat (96 :: uint32))
      (write_buffer (utf16le sample_xml) (buf sample_config))) = (sample_xml, None)"
  unfolding assms
  by (simp add: sample_ext_def write_buffer_def utf16le_def sample_xml_def sample_config_def)

lemma sample_publisher:
  assumes "EvtOpenPublisherMetadata api = EvtOpenPublisherMetadata sample_api"
  shows "openPublisherMetadata api 0 ''App'' 0 t =
      ((300, None), t @ [Call_EvtOpenPublisherMetadata ''App'' 0])"
  unfolding openPublisherMetadata_def assms
  by (simp add: UTF16PtrFromString_def sample_api_def)

lemma sample_contract: "EvtFormatMessage_contract sample_api"
  unfolding EvtFormatMessage_contract_def
proof (intro allI impI)
  fix t ph eh flag size err written used
  assume "EvtFormatMessage sample_api t ph eh flag size = (err, written, used)"
  then show "(err = Some ERROR_INSUFFICIENT_BUFFER \<longrightarrow> size < used \<and> unat used < 2 ^ 31) \<and>
      (err = None \<longrightarrow> 0 < used \<and> used \<le> size)"
    by (cases flag)
       (auto simp: sample_api_def sample_text_def word_less_nat_alt word_le_nat_alt
          split: if_splits)
qed

text \<open>
  Three events of the sample: one whose XML breaks off after the provider name, one whose
  publisher cannot be opened, and one that goes through. The first two come back as
  decoded, with empty text fields; the third comes back with the System fields of
  \<open>sample_event\<close>.
\<close>

theorem renderEvent_keeps_event_witness:
  "xml_Unmarshal sample_ext_bad_xml sample_xml Event_zero =
     (Event_zero\<lparr>Source_Name := ''App''\<rparr>, Some (ErrorText ''unexpected EOF'')) \<and>
   renderEvent sample_api sample_ext_bad_xml sample_config 11 [] =
     (Done (Event_zero\<lparr>Source_Name := ''App''\<rparr>, None),
      sample_config\<lparr>buf := write_buffer (utf16le sample_xml) (buf sample_config)\<rparr>,
      [Call_EvtRender 11 16384]) \<and>
   EvtOpenPublisherMetadata sample_api_no_publisher [Call_EvtRender 11 16384] ''App'' 0 =
     (0, Some (Errno 15002)) \<and>
   renderEvent sample_api_no_publisher sample_ext sample_config 11 [] =
     (Done (sample_event, None),
      sample_config\<lparr>buf := write_buffer (utf16le sample_xml) (buf sample_config)\<rparr>,
      [Call_EvtRender 11 16384, Call_EvtOpenPublisherMetadata ''App'' 0]) \<and>
   LevelText sample_event = [] \<and> Message sample_event = [] \<and>
   EvtFormatMessage_contract sample_api \<and>
   (\<exists>ev. fst (renderEvent sample_api sample_ext sample_config 11 []) = Done (ev, None) \<and>
         system_part ev = system_part sample_event)"
proof -
  have nonempty: "buf sample_config \<noteq> []" by (simp add: sample_config_def)
  have fits: "unat (96 :: uint32) \<le> length (buf sample_config)"
    by (simp add: sample_config_def)
  have size: "(word_of_nat (length (buf sample_config)) :: uint32) = 16384"
    by (simp add: sample_config_def)
  have loc: "Locale sample_config = 0" by (simp add: sample_config_def)
  have bad: "xml_Unmarshal sample_ext_bad_xml sample_xml Event_zero =
      (Event_zero\<lparr>Source_Name := ''App''\<rparr>, Some (ErrorText ''unexpected EOF''))"
    by (simp add: sample_ext_bad_xml_def)
  have good: "xml_Unmarshal sample_ext sample_xml Event_zero = (sample_event, None)"
    by (simp add: sample_ext_def)
  have src: "Source_Name sample_event = ''App''" by (simp add: sample_event_def)
  have closed: "EvtOpenPublisherMetadata sample_api_no_publisher [Call_EvtRender 11 16384]
      ''App'' 0 = (0, Some (Errno 15002))"
    by (simp add: sample_api_no_publisher_def)
  have pub1: "openPublisherMetadata sample_api 0
      (Source_Name (Event_zero\<lparr>Source_Name := ''App''\<rparr>)) (Locale sample_config)
      ([] @ [Call_EvtRender 11 (word_of_nat (length (buf sample_config)))]) =
      ((300, None), ([] @ [Call_EvtRender 11 (word_of_nat (length (buf sample_config)))]) @
         [Call_EvtOpenPublisherMetadata ''App'' 0])"
    using sample_publisher [OF refl] by (simp add: loc)
  have pub2: "openPublisherMetadata sample_api_no_publisher 0 (Source_Name sample_event)
      (Locale sample_config)
      ([] @ [Call_EvtRender 11 (word_of_nat (length (buf sample_config)))]) =
      ((0, Some (Errno 15002)), [Call_EvtRender 11 16384,
         Call_EvtOpenPublisherMetadata ''App'' 0])"
    by (simp add: openPublisherMetadata_def UTF16PtrFromString_def src loc size
        sample_api_no_publisher_def)
  have pub3: "openPublisherMetadata sample_api 0 (Source_Name sample_event)
      (Locale sample_config)
      ([] @ [Call_EvtRender 11 (word_of_nat (length (buf sample_config)))]) =
      ((300, None), ([] @ [Call_EvtRender 11 (word_of_nat (length (buf sample_config)))]) @
         [Call_EvtOpenPublisherMetadata ''App'' 0])"
    using sample_publisher [OF refl] by (simp add: loc src)
  have 1: "renderEvent sample_api sample_ext_bad_xml sample_config 11 [] =
     (Done (Event_zero\<lparr>Source_Name := ''App''\<rparr>, None),
      sample_config\<lparr>buf := write_buffer (utf16le sample_xml) (buf sample_config)\<rparr>,
      [Call_EvtRender 11 16384])"
    using renderEvent_keeps_event [OF nonempty sample_render [OF refl] fits
        sample_decode bad pub1]
    by (simp add: sample_ext_bad_xml_def size)
  have 2: "renderEvent sample_api_no_publisher sample_ext sample_config 11 [] =
     (Done (sample_event, None),
      sample_config\<lparr>buf := write_buffer (utf16le sample_xml) (buf sample_config)\<rparr>,
      [Call_EvtRender 11 16384, Call_EvtOpenPublisherMetadata ''App'' 0])"
    using renderEvent_keeps_event [OF nonempty sample_render fits sample_decode [OF refl]
        good pub2]
    by (simp add: sample_api_no_publisher_def)
  have 3: "\<exists>ev. fst (renderEvent sample_api sample_ext sample_config 11 []) = Done (ev, None) \<and>
      system_part ev = system_part sample_event"
    using renderEvent_keeps_event [OF nonempty sample_render [OF refl] fits
        sample_decode [OF refl] good pub3] sample_contract
    by blast
  have empty: "LevelText sample_event = [] \<and> Message sample_event = []"
    by (simp add: sample_event_def Event_zero_def)
  from bad 1 closed 2 empty sample_contract 3 show ?thesis by blast
qed

section \<open>Closing the handles of a batch\<close>

lemma fetchEventHandles_batch:
  assumes "EvtNext api t subsHandle 5 = (None, written, n)" and "unat n \<le> 5"
  shows "fetchEventHandles api subsHandle t =
    (Done (take (unat n) (write_buffer written (replicate 5 0)), None),
     t @ [Call_EvtNext subsHandle 5])"
  using assms by (simp add: fetchEventHandles_def Let_def length_write_buffer)

lemma fetchEvents_close_all:
  assumes "\<forall>i<length hs. EvtClose api (t @ map Call_EvtClose (take i hs)) (hs ! i) = None"
  shows "fetchEvents_close api hs t = (None, t @ map Call_EvtClose hs)"
  using assms
proof (induction hs arbitrary: t)
  case Nil
  then show ?case by simp
next
  case (Cons h hs)
  from Cons.prems have first: "EvtClose api t h = None" by fastforce
  have "\<forall>i<length hs.
      EvtClose api ((t @ [Call_EvtClose h]) @ map Call_EvtClose (take i hs)) (hs ! i) = None"
  proof (intro allI impI)
    fix i assume "i < length hs"
    then have "Suc i < length (h # hs)" by simp
    with Cons.prems
    have "EvtClose api (t @ map Call_EvtClose (take (Suc i) (h # hs))) ((h # hs) ! Suc i) = None"
      by blast
    then show "EvtClose api ((t @ [Call_EvtClose h]) @ map Call_EvtClose (take i hs)) (hs ! i)
        = None"
      by simp
  qed
  from Cons.IH [OF this] first show ?case by simp
qed

lemma fetchEvents_close_stops:
  assumes "i < length hs"
    and "\<forall>j<i. EvtClose api (t @ map Call_EvtClose (take j hs)) (hs ! j) = None"
    and "EvtClose api (t @ map Call_EvtClose (take i hs)) (hs ! i) = Some e"
  shows "fetchEvents_close api hs t = (Some e, t @ map Call_EvtClose (take (Suc i) hs))"
  using assms
proof (induction hs arbitrary: t i)
  case Nil
  then show ?case by simp
next
  case (Cons h hs)
  show ?case
  proof (cases i)
    case 0
    with Cons.prems show ?thesis by simp
  next
    case (Suc k)
    with Cons.prems have k: "k < length hs" by simp
    from Cons.prems Suc have first: "EvtClose api t h = None" by fastforce
    have before: "\<forall>j<k.
        EvtClose api ((t @ [Call_EvtClose h]) @ map Call_EvtClose (take j hs)) (hs ! j) = None"
    proof (intro allI impI)
      fix j assume "j < k"
      then have "Suc j < i" using Suc by simp
      with Cons.prems(2)
      have "EvtClose api (t @ map Call_EvtClose (take (Suc j) (h # hs))) ((h # hs) ! Suc j) = None"
        by blast
      then show "EvtClose api ((t @ [Call_EvtClose h]) @ map Call_EvtClose (take j hs)) (hs ! j)
          = None"
        by simp
    qed
    have fails: "EvtClose api ((t @ [Call_EvtClose h]) @ map Call_EvtClose (take k hs)) (hs ! k)
        = Some e"
      using Cons.prems(3) Suc by simp
    from Cons.IH [OF k before fails] first Suc show ?thesis by simp
  qed
qed

lemma fetchEvents_all_closed:
  assumes pull: "EvtNext api t subsHandle 5 = (None, written, n)" and n: "unat n \<le> 5"
    and hs: "hs = take (unat n) (write_buffer written (replicate 5 0))"
    and rendered: "fetchEvents_render api ext hs [] w (t @ [Call_EvtNext subsHandle 5])
                     = (Done events, w2, t2)"
    and closes: "\<forall>i<length hs.
                   EvtClose api (t2 @ map Call_EvtClose (take i hs)) (hs ! i) = None"
  shows "fetchEvents api ext w subsHandle t =
           (Done (events, None), w2, t2 @ map Call_EvtClose hs)"
  using fetchEventHandles_batch [OF pull n] rendered fetchEvents_close_all [OF closes]
  by (simp add: fetchEvents_def hs)

lemma fetchEvents_close_failure:
  assumes pull: "EvtNext api t subsHandle 5 = (None, written, n)" and n: "unat n \<le> 5"
    and hs: "hs = take (unat n) (write_buffer written (replicate 5 0))"
    and rendered: "fetchEvents_render api ext hs [] w (t @ [Call_EvtNext subsHandle 5])
                     = (Done events, w2, t2)"
    and i: "i < length hs"
    and before: "\<forall>j<i. EvtClose api (t2 @ map Call_EvtClose (take j hs)) (hs ! j) = None"
    and fails: "EvtClose api (t2 @ map Call_EvtClose (take i hs)) (hs ! i) = Some e"
  shows "fetchEvents api ext w subsHandle t =
           (Done (events, Some e), w2, t2 @ map Call_EvtClose (take (Suc i) hs))"
  using fetchEventHandles_batch [OF pull n] rendered fetchEvents_close_stops [OF i before fails]
  by (simp add: fetchEvents_def hs)

lemma Gather_loop_error:
  assumes "fetchEvents api ext w (subscription w) t = (Done (events, Some e), w1, t1)"
  shows "Gather_loop api ext w t out =
           Some (if e = ERROR_NO_MORE_ITEMS then (Done None, w1, t1, out)
                 else (Done (Some e), w1, t1,
                       out\<lparr>logs := logs out @ [Error_getting_events e]\<rparr>))"
  by (subst Gather_loop.simps) (simp add: assms)

lemma Gather_loop_step:
  assumes "fetchEvents api ext w (subscription w) t = (Done (events, None), w1, t1)"
    and "Gather_events api ext events t1 out = (t2, out2)"
  shows "Gather_loop api ext w t out = Gather_loop api ext w1 t2 out2"
  by (subst Gather_loop.simps) (simp add: assms)

text \<open>The sample batch: handle 12 fails to render, handle 11 renders.\<close>

lemma sample_format:
  assumes "EvtFormatMessage api = EvtFormatMessage sample_api"
  shows "formatEventString api sample_ext flag 11 300 t =
     (Done (sample_text flag, None),
      t @ [Call_EvtFormatMessage 300 11 flag 0,
           Call_EvtFormatMessage 300 11 flag (word_of_nat (length (sample_text flag) + 1))])"
  unfolding formatEventString_def assms
  by (cases flag)
     (simp_all add: sample_api_def sample_ext_def sample_text_def
        utf16le_def ERROR_INSUFFICIENT_BUFFER_def write_buffer_def bytes_Trim_def)

lemma sample_populate_text:
  assumes "EvtFormatMessage api = EvtFormatMessage sample_api"
  shows "populate_text api sample_ext 11 300 sample_event t =
     (Done sample_rendered, t @ sample_text_trace)"
  unfolding populate_text_def populate_def sample_format [OF assms]
  by (simp add: sample_rendered_def sample_text_trace_def sample_text_def sample_ext_def
      is_crlf_def)

lemma sample_renderEvent:
  assumes "EvtFormatMessage api = EvtFormatMessage sample_api"
    and "EvtRender api = EvtRender sample_api"
    and "EvtOpenPublisherMetadata api = EvtOpenPublisherMetadata sample_api"
    and "buf w = replicate 16384 (CHR 0x00)" and "Locale w = 0"
  shows "renderEvent api sample_ext w 11 t =
     (Done (sample_rendered, None),
      w\<lparr>buf := write_buffer (utf16le sample_xml) (buf w)\<rparr>,
      t @ [Call_EvtRender 11 16384, Call_EvtOpenPublisherMetadata ''App'' 0] @
        sample_text_trace @ [Call_EvtClose 300])"
proof -
  have nonempty: "buf w \<noteq> []" using assms(4) by simp
  have size: "(word_of_nat (length (buf w)) :: uint32) = 16384" using assms(4) by simp
  have render: "EvtRender api t 11 (word_of_nat (length (buf w))) =
      (None, utf16le sample_xml, 96)"
    unfolding size assms(2) by (simp add: sample_api_def utf16le_def sample_xml_def)
  have fits: "unat (96 :: uint32) \<le> length (buf w)" using assms(4) by simp
  have decode: "DecodeUTF16 sample_ext (take (unat (96 :: uint32))
      (write_buffer (utf16le sample_xml) (buf w))) = (sample_xml, None)"
    using assms(4) by (simp add: sample_ext_def write_buffer_def utf16le_def sample_xml_def)
  have unmarshal: "xml_Unmarshal sample_ext sample_xml Event_zero = (sample_event, None)"
    by (simp add: sample_ext_def)
  have src: "Source_Name sample_event = ''App''" by (simp add: sample_event_def)
  show ?thesis
    unfolding renderEvent_decoded [OF nonempty render fits decode unmarshal]
    by (simp add: src assms(5) sample_publisher [OF assms(3)]
        sample_populate_text [OF assms(1)] size)
qed

lemma sample_render_fails:
  assumes "EvtRender api = EvtRender sample_api"
    and "buf w = replicate 16384 (CHR 0x00)"
  shows "renderEvent api ext w 12 t =
     (Done (Event_zero, Some (Errno 13)), w, t @ [Call_EvtRender 12 16384])"
proof -
  have nonempty: "buf w \<noteq> []" using assms(2) by simp
  have size: "(word_of_nat (length (buf w)) :: uint32) = 16384" using assms(2) by simp
  have render: "EvtRender api t 12 (word_of_nat (length (buf w))) = (Some (Errno 13), [], 0)"
    unfolding size assms(1) by (simp add: sample_api_def)
  show ?thesis
    unfolding renderEvent_native_error [OF nonempty render]
    by (simp add: write_buffer_def size)
qed

lemma sample_fetchEvents_render:
  assumes "EvtFormatMessage api = EvtFormatMessage sample_api"
    and "EvtRender api = EvtRender sample_api"
    and "EvtOpenPublisherMetadata api = EvtOpenPublisherMetadata sample_api"
    and "buf w = replicate 16384 (CHR 0x00)" and "Locale w = 0"
  shows "fetchEvents_render api sample_ext [12, 11] [] w (t @ [Call_EvtNext 200 5]) =
     (Done [sample_rendered], w\<lparr>buf := write_buffer (utf16le sample_xml) (buf w)\<rparr>,
      t @ sample_batch_trace)"
  by (simp add: sample_render_fails [OF assms(2) assms(4)]
      sample_renderEvent [OF assms] sample_batch_trace_def)

lemma sample_pull:
  assumes "EvtNext api = EvtNext sample_api" and "Call_EvtNext 200 5 \<notin> set t"
  shows "EvtNext api t 200 5 = (None, [12, 11], 2)"
  unfolding assms(1) using assms(2) by (simp add: sample_api_def)

lemma sample_hs:
  "[12, 11] = take (unat (2 :: uint32)) (write_buffer [12, 11] (replicate 5 (0 :: nat)))"
  by (simp add: write_buffer_def)

text \<open>
  Claim C6, as amended. Every pull asks for exactly five handles. When the pull returns a
  batch and no render panics, the handles of the batch are closed in their order after the
  last of them has been rendered, whatever each render returned, as long as every close
  succeeds: the trace of \<open>fetchEvents\<close> ends with one \<open>_EvtClose\<close> for each handle,
  after the calls of the renders. (A close that fails ends the loop; the next theorem
  follows that case.)
\<close>

theorem fetchEvents_closes_batch:
  assumes pull: "EvtNext api t subsHandle 5 = (None, written, n)" and n: "unat n \<le> 5"
    and hs: "hs = take (unat n) (write_buffer written (replicate 5 0))"
    and rendered: "fetchEvents_render api ext hs [] w (t @ [Call_EvtNext subsHandle 5])
                     = (Done events, w2, t2)"
    and closes: "\<forall>i<length hs.
                   EvtClose api (t2 @ map Call_EvtClose (take i hs)) (hs ! i) = None"
  shows "snd (fetchEventHandles api subsHandle t) = t @ [Call_EvtNext subsHandle 5] \<and>
         fetchEvents api ext w subsHandle t =
           (Done (events, None), w2, t2 @ map Call_EvtClose hs)"
  using fetchEvents_all_closed [OF pull n hs rendered closes]
  by (simp add: fetchEventHandles_trace)

text \<open>
  The sample batch: the render of handle 12 fails and that of handle 11 succeeds; both
  handles are closed, after the publisher handle of the second render.
\<close>

theorem fetchEvents_closes_batch_witness:
  "EvtNext sample_api [] 200 5 = (None, [12, 11], 2) \<and>
   fst (renderEvent sample_api sample_ext sample_config 12 [Call_EvtNext 200 5]) =
     Done (Event_zero, Some (Errno 13)) \<and>
   EvtClose sample_api sample_batch_trace 12 = None \<and>
   EvtClose sample_api (sample_batch_trace @ [Call_EvtClose 12]) 11 = None \<and>
   fetchEvents sample_api sample_ext sample_config 200 [] =
     (Done ([sample_rendered], None),
      sample_config\<lparr>buf := write_buffer (utf16le sample_xml) (buf sample_config)\<rparr>,
      sample_batch_trace @ [Call_EvtClose 12, Call_EvtClose 11])"
proof -
  have w: "buf sample_config = replicate 16384 (CHR 0x00)" "Locale sample_config = 0"
    by (simp_all add: sample_config_def)
  have pull: "EvtNext sample_api [] 200 5 = (None, [12, 11], 2)"
    by (rule sample_pull) simp_all
  have fails: "fst (renderEvent sample_api sample_ext sample_config 12 [Call_EvtNext 200 5]) =
      Done (Event_zero, Some (Errno 13))"
    by (simp add: sample_render_fails [OF refl w(1)])
  have rendered: "fetchEvents_render sample_api sample_ext [12, 11] [] sample_config
      ([] @ [Call_EvtNext 200 5]) =
      (Done [sample_rendered],
       sample_config\<lparr>buf := write_buffer (utf16le sample_xml) (buf sample_config)\<rparr>,
       [] @ sample_batch_trace)"
    by (rule sample_fetchEvents_render [OF refl refl refl w])
  have closes: "\<forall>i<length [12, 11 :: nat].
      EvtClose sample_api (([] @ sample_batch_trace) @ map Call_EvtClose (take i [12, 11]))
        ([12, 11] ! i) = None"
    by (simp add: sample_api_def)
  have "fetchEvents sample_api sample_ext sample_config 200 [] =
     (Done ([sample_rendered], None),
      sample_config\<lparr>buf := write_buffer (utf16le sample_xml) (buf sample_config)\<rparr>,
      ([] @ sample_batch_trace) @ map Call_EvtClose [12, 11])"
    using fetchEvents_closes_batch [OF pull _ sample_hs rendered closes] by simp
  then show ?thesis
    using pull fails by (simp add: sample_api_def)
qed

text \<open>
  The claim as it stands fails when a close fails. In the sample batch of the handles 12
  and 11, let the close of handle 12 fail: \<open>fetchEvents\<close> returns at once, and handle 11,
  whose event was rendered, is never passed to \<open>_EvtClose\<close>.
\<close>

theorem fetchEvents_leaves_handle_open_counterexample:
  "EvtNext sample_api_close_fails [] 200 5 = (None, [12, 11], 2) \<and>
   fetchEvents sample_api_close_fails sample_ext sample_config 200 [] =
     (Done ([sample_rendered], Some (Errno 6)),
      sample_config\<lparr>buf := write_buffer (utf16le sample_xml) (buf sample_config)\<rparr>,
      sample_batch_trace @ [Call_EvtClose 12]) \<and>
   Call_EvtClose 11 \<notin> set (sample_batch_trace @ [Call_EvtClose 12])"
proof -
  let ?api = sample_api_close_fails
  have w: "buf sample_config = replicate 16384 (CHR 0x00)" "Locale sample_config = 0"
    by (simp_all add: sample_config_def)
  have pull: "EvtNext ?api [] 200 5 = (None, [12, 11], 2)"
    by (rule sample_pull) (simp_all add: sample_api_close_fails_def)
  have rendered: "fetchEvents_render ?api sample_ext [12, 11] [] sample_config
      ([] @ [Call_EvtNext 200 5]) =
      (Done [sample_rendered],
       sample_config\<lparr>buf := write_buffer (utf16le sample_xml) (buf sample_config)\<rparr>,
       [] @ sample_batch_trace)"
    by (rule sample_fetchEvents_render [OF _ _ _ w])
       (simp_all add: sample_api_close_fails_def)
  have i: "0 < length [12, 11 :: nat]" by simp
  have before: "\<forall>j<0. EvtClose ?api (([] @ sample_batch_trace) @
      map Call_EvtClose (take j [12, 11])) ([12, 11] ! j) = None"
    by simp
  have fails: "EvtClose ?api (([] @ sample_batch_trace) @ map Call_EvtClose (take 0 [12, 11]))
      ([12, 11] ! 0) = Some (Errno 6)"
    by (simp add: sample_api_close_fails_def)
  have "fetchEvents ?api sample_ext sample_config 200 [] =
     (Done ([sample_rendered], Some (Errno 6)),
      sample_config\<lparr>buf := write_buffer (utf16le sample_xml) (buf sample_config)\<rparr>,
      ([] @ sample_batch_trace) @ map Call_EvtClose (take (Suc 0) [12, 11]))"
    by (rule fetchEvents_close_failure [OF pull _ sample_hs rendered i before fails]) simp
  then show ?thesis
    using pull by (simp add: sample_batch_trace_def sample_text_trace_def)
qed

section \<open>The sample poll cycle\<close>

lemma Gather_started:
  "Gather_start api w t out = Some (w1, t1, out1) \<Longrightarrow>
   Gather api ext w t out = Gather_loop api ext w1 t1 out1"
  by (auto simp: Gather_start_def Gather_def split: if_splits prod.splits option.splits)

lemma Gather_loop_batches:
  "Gather_batches k api ext w t out = Some (w', t', out') \<Longrightarrow>
   Gather_loop api ext w t out = Gather_loop api ext w' t' out'"
proof (induction k arbitrary: w t out)
  case 0
  then show ?case by simp
next
  case (Suc k)
  from Suc.prems obtain events w1 t1 where
    f: "fetchEvents api ext w (subscription w) t = (Done (events, None), w1, t1)"
    by (auto split: prod.splits outcome.splits option.splits)
  obtain t2 out2 where g: "Gather_events api ext events t1 out = (t2, out2)"
    by (metis surj_pair)
  from Suc.prems f g have "Gather_batches k api ext w1 t2 out2 = Some (w', t', out')"
    by simp
  from Suc.IH [OF this] show ?case
    by (simp add: Gather_loop_step [OF f g])
qed

lemma sample_Gather_start:
  assumes "CreateEvent api = CreateEvent sample_api"
    and "EvtSubscribe api = EvtSubscribe sample_api"
  shows "Gather_start api sample_config [] out =
    Some (sample_config\<lparr>subscription := 200\<rparr>,
          [Call_CreateEvent, Call_EvtSubscribe 100 ''Application'' ''*'', Call_CloseHandle 100],
          out\<lparr>logs := logs out @ [Debug_subscription 200]\<rparr>)"
  using sample_evtSubscribe [OF assms, of "''Application''" "''*''" "[]"]
  by (simp add: Gather_start_def sample_config_def)

lemma sample_description:
  "createDescriptionFromEvent sample_ext sample_rendered = ''disk|C:''"
  by (simp add: createDescriptionFromEvent_def sample_ext_def sample_rendered_def
      sample_event_def is_crlf_def)

lemma sample_Gather_events:
  "Gather_events api sample_ext [sample_rendered] t out =
     (t, out\<lparr>metrics := metrics out @ [sample_metric]\<rparr>)"
  by (simp add: sample_description Let_def)
     (simp add: sample_ext_def sample_rendered_def sample_event_def sample_metric_def
        Event_zero_def)

lemma sample_fetchEvents:
  assumes w: "buf w = replicate 16384 (CHR 0x00)" "Locale w = 0"
    and t: "Call_EvtNext 200 5 \<notin> set t"
  shows "fetchEvents sample_api sample_ext w 200 t =
     (Done ([sample_rendered], None), w\<lparr>buf := write_buffer (utf16le sample_xml) (buf w)\<rparr>,
      t @ sample_batch_trace @ [Call_EvtClose 12, Call_EvtClose 11])"
proof -
  have closes: "\<forall>i<length [12, 11 :: nat].
      EvtClose sample_api ((t @ sample_batch_trace) @ map Call_EvtClose (take i [12, 11]))
        ([12, 11] ! i) = None"
    by (simp add: sample_api_def)
  show ?thesis
    using fetchEvents_all_closed [OF sample_pull [OF refl t] _ sample_hs
        sample_fetchEvents_render [OF refl refl refl w] closes]
    by simp
qed

text \<open>
  The sample poll cycle, for every configuration that has no subscription yet, the buffer
  of \<open>init\<close> and the default locale: whatever its other options are, one record is
  emitted, \<open>sample_metric\<close>.
\<close>

lemma sample_Gather:
  assumes "subscription w = 0" and "buf w = replicate 16384 (CHR 0x00)" and "Locale w = 0"
    and "CHR 0x00 \<notin> set (EventlogName w)" and "CHR 0x00 \<notin> set (Query w)"
  shows "Gather sample_api sample_ext w [] out =
     Some (Done None,
           w\<lparr>subscription := 200, buf := write_buffer (utf16le sample_xml) (buf w)\<rparr>,
           sample_cycle_trace (EventlogName w) (Query w),
           out\<lparr>logs := logs out @ [Debug_subscription 200],
               metrics := metrics out @ [sample_metric]\<rparr>)"
proof -
  let ?t0 = "[Call_CreateEvent, Call_EvtSubscribe 100 (EventlogName w) (Query w),
              Call_CloseHandle 100]"
  let ?w1 = "w\<lparr>subscription := 200\<rparr>"
  let ?w2 = "?w1\<lparr>buf := write_buffer (utf16le sample_xml) (buf ?w1)\<rparr>"
  let ?t1 = "?t0 @ sample_batch_trace @ [Call_EvtClose 12, Call_EvtClose 11]"
  let ?out1 = "out\<lparr>logs := logs out @ [Debug_subscription 200]\<rparr>"
  have sub: "evtSubscribe sample_api (EventlogName w) (Query w) [] = ((200, None), ?t0)"
    using sample_evtSubscribe [OF refl refl assms(4) assms(5), of "[]"] by simp
  have f1: "fetchEvents sample_api sample_ext ?w1 (subscription ?w1) ?t0 =
      (Done ([sample_rendered], None), ?w2, ?t1)"
    using sample_fetchEvents [of ?w1 ?t0] assms(2) assms(3)
    by simp
  have pull2: "EvtNext sample_api ?t1 (subscription ?w2) 5 =
      (Some ERROR_INVALID_OPERATION, [], 0)"
    by (simp add: sample_api_def sample_batch_trace_def)
  have "Gather sample_api sample_ext w [] out = Gather_loop sample_api sample_ext ?w1 ?t0 ?out1"
    by (rule Gather_subscribes [OF assms(1) sub])
  also have "\<dots> = Gather_loop sample_api sample_ext ?w2 ?t1
      (?out1\<lparr>metrics := metrics ?out1 @ [sample_metric]\<rparr>)"
    by (rule Gather_loop_step [OF f1 sample_Gather_events])
  also have "\<dots> = Some (Done None, ?w2, ?t1 @ [Call_EvtNext (subscription ?w2) 5],
      ?out1\<lparr>metrics := metrics ?out1 @ [sample_metric]\<rparr>)"
    by (rule Gather_loop_end [OF pull2])
  finally show ?thesis
    by (simp add: sample_cycle_trace_def)
qed

lemma sample_Gather_batches:
  assumes w: "buf w = replicate 16384 (CHR 0x00)" "Locale w = 0" "subscription w = 200"
    and t: "Call_EvtNext 200 5 \<notin> set t"
  shows "Gather_batches 1 sample_api sample_ext w t out =
     Some (w\<lparr>buf := write_buffer (utf16le sample_xml) (buf w)\<rparr>,
           t @ sample_batch_trace @ [Call_EvtClose 12, Call_EvtClose 11],
           out\<lparr>metrics := metrics out @ [sample_metric]\<rparr>)"
proof -
  have f: "fetchEvents sample_api sample_ext w (subscription w) t =
      (Done ([sample_rendered], None), w\<lparr>buf := write_buffer (utf16le sample_xml) (buf w)\<rparr>,
       t @ sample_batch_trace @ [Call_EvtClose 12, Call_EvtClose 11])"
    using sample_fetchEvents [OF w(1) w(2) t] by (simp add: w(3))
  have "Gather_batches (Suc 0) sample_api sample_ext w t out =
      Gather_batches 0 sample_api sample_ext
        (w\<lparr>buf := write_buffer (utf16le sample_xml) (buf w)\<rparr>)
        (t @ sample_batch_trace @ [Call_EvtClose 12, Call_EvtClose 11])
        (out\<lparr>metrics := metrics out @ [sample_metric]\<rparr>)"
    by (simp only: Gather_batches.simps f sample_Gather_events prod.case outcome.case
        option.case)
  then show ?thesis by simp
qed

section \<open>The end of the backlog\<close>

text \<open>
  Claim C4. Take a poll cycle at any of its pulls: \<open>Gather\<close> has started (with the
  subscription it had or has just made) and \<open>k\<close> batches have gone through. When the
  next pull reports \<open>ERROR_INVALID_OPERATION\<close> with no event returned, \<open>Gather\<close>
  returns \<open>nil\<close>, and the records and the log are those before that pull: nothing is
  emitted and nothing is logged for it.
\<close>

theorem Gather_end_of_backlog:
  assumes start: "Gather_start api w t out = Some (w1, t1, out1)"
    and batches: "Gather_batches k api ext w1 t1 out1 = Some (w', t', out')"
    and pull: "EvtNext api t' (subscription w') 5 = (Some ERROR_INVALID_OPERATION, written, 0)"
  shows "Gather api ext w t out =
           Some (Done None, w', t' @ [Call_EvtNext (subscription w') 5], out')"
proof -
  have "Gather api ext w t out = Gather_loop api ext w1 t1 out1"
    by (rule Gather_started [OF start])
  also have "\<dots> = Gather_loop api ext w' t' out'"
    by (rule Gather_loop_batches [OF batches])
  also have "\<dots> = Some (Done None, w', t' @ [Call_EvtNext (subscription w') 5], out')"
    by (rule Gather_loop_end [OF pull])
  finally show ?thesis .
qed

text \<open>
  Two poll cycles. On a subscription with nothing to deliver the first pull reports the
  end: \<open>Gather\<close> subscribes, pulls once and returns \<open>nil\<close> with no record. On the sample
  subscription the second pull reports it: \<open>Gather\<close> returns \<open>nil\<close> with the one record
  of the first batch.
\<close>

theorem Gather_end_of_backlog_witness:
  "EvtNext sample_api_idle [Call_CreateEvent, Call_EvtSubscribe 100 ''Application'' ''*'',
      Call_CloseHandle 100] 200 5 = (Some ERROR_INVALID_OPERATION, [], 0) \<and>
   Gather sample_api_idle sample_ext sample_config [] sample_sink =
     Some (Done None, sample_config\<lparr>subscription := 200\<rparr>,
           [Call_CreateEvent, Call_EvtSubscribe 100 ''Application'' ''*'', Call_CloseHandle 100,
            Call_EvtNext 200 5],
           \<lparr>metrics = [], logs = [Debug_subscription 200]\<rparr>) \<and>
   map_option (\<lambda>(r, w, t, out). (r, t, metrics out = [sample_metric], logs out))
     (Gather sample_api sample_ext sample_config [] sample_sink) =
     Some (Done None, sample_cycle_trace ''Application'' ''*'', True, [Debug_subscription 200])"
proof -
  let ?t = "[Call_CreateEvent, Call_EvtSubscribe 100 ''Application'' ''*'', Call_CloseHandle 100]"
  let ?w = "sample_config\<lparr>subscription := 200\<rparr>"
  let ?out = "sample_sink\<lparr>logs := logs sample_sink @ [Debug_subscription 200]\<rparr>"
  have start0: "Gather_start sample_api_idle sample_config [] sample_sink = Some (?w, ?t, ?out)"
    by (rule sample_Gather_start) (simp_all add: sample_api_idle_def)
  have batches0: "Gather_batches 0 sample_api_idle sample_ext ?w ?t ?out = Some (?w, ?t, ?out)"
    by simp
  have pull0: "EvtNext sample_api_idle ?t (subscription ?w) 5 =
      (Some ERROR_INVALID_OPERATION, [], 0)"
    by (simp add: sample_api_idle_def)
  have 0: "Gather sample_api_idle sample_ext sample_config [] sample_sink =
      Some (Done None, ?w, ?t @ [Call_EvtNext (subscription ?w) 5], ?out)"
    by (rule Gather_end_of_backlog [OF start0 batches0 pull0])
  let ?w1 = "?w\<lparr>buf := write_buffer (utf16le sample_xml) (buf ?w)\<rparr>"
  let ?t1 = "?t @ sample_batch_trace @ [Call_EvtClose 12, Call_EvtClose 11]"
  let ?out1 = "?out\<lparr>metrics := metrics ?out @ [sample_metric]\<rparr>"
  have start1: "Gather_start sample_api sample_config [] sample_sink = Some (?w, ?t, ?out)"
    by (rule sample_Gather_start [OF refl refl])
  have batches1: "Gather_batches 1 sample_api sample_ext ?w ?t ?out = Some (?w1, ?t1, ?out1)"
    by (rule sample_Gather_batches) (simp_all add: sample_config_def)
  have pull1: "EvtNext sample_api ?t1 (subscription ?w1) 5 =
      (Some ERROR_INVALID_OPERATION, [], 0)"
    by (simp add: sample_api_def sample_batch_trace_def)
  have 1: "Gather sample_api sample_ext sample_config [] sample_sink =
      Some (Done None, ?w1, ?t1 @ [Call_EvtNext (subscription ?w1) 5], ?out1)"
    by (rule Gather_end_of_backlog [OF start1 batches1 pull1])
  show ?thesis
    unfolding 0 1 using pull0
    by (simp add: sample_sink_def sample_cycle_trace_def)
qed

section \<open>A close that fails\<close>

text \<open>
  Claim C10, as amended. Take a poll cycle at any of its pulls, as above, and let the pull
  return a batch. When the close of a handle of the batch fails, \<open>fetchEvents\<close> closes
  no further handle and returns the events it rendered together with the close error.
  \<open>Gather\<close> then ends the poll cycle without emitting those events: the records are
  those before the batch. It returns the close error and logs it, unless the error is
  \<open>ERROR_NO_MORE_ITEMS\<close>, which \<open>Gather\<close> reads as the end of the backlog: then it
  returns \<open>nil\<close> and logs nothing.
\<close>

theorem close_failure_ends_cycle:
  assumes start: "Gather_start api w t out = Some (w1, t1, out1)"
    and batches: "Gather_batches k api ext w1 t1 out1 = Some (w', t', out')"
    and pull: "EvtNext api t' (subscription w') 5 = (None, written, n)" and n: "unat n \<le> 5"
    and hs: "hs = take (unat n) (write_buffer written (replicate 5 0))"
    and rendered: "fetchEvents_render api ext hs [] w' (t' @ [Call_EvtNext (subscription w') 5])
                     = (Done events, w2, t2)"
    and i: "i < length hs"
    and before: "\<forall>j<i. EvtClose api (t2 @ map Call_EvtClose (take j hs)) (hs ! j) = None"
    and fails: "EvtClose api (t2 @ map Call_EvtClose (take i hs)) (hs ! i) = Some e"
    and t3: "t3 = t2 @ map Call_EvtClose (take (Suc i) hs)"
  shows "fetchEvents api ext w' (subscription w') t' = (Done (events, Some e), w2, t3) \<and>
         Gather api ext w t out =
           Some (if e = ERROR_NO_MORE_ITEMS then (Done None, w2, t3, out')
                 else (Done (Some e), w2, t3,
                       out'\<lparr>logs := logs out' @ [Error_getting_events e]\<rparr>))"
proof -
  have f: "fetchEvents api ext w' (subscription w') t' = (Done (events, Some e), w2, t3)"
    unfolding t3 by (rule fetchEvents_close_failure [OF pull n hs rendered i before fails])
  have "Gather api ext w t out = Gather_loop api ext w1 t1 out1"
    by (rule Gather_started [OF start])
  also have "\<dots> = Gather_loop api ext w' t' out'"
    by (rule Gather_loop_batches [OF batches])
  finally show ?thesis
    by (simp add: f Gather_loop_error [OF f])
qed

text \<open>
  In the sample batch the close of handle 12 fails with the error 6. The event of handle
  11 was rendered; \<open>Gather\<close> returns the error, logs it and emits no record.
\<close>

theorem close_failure_ends_cycle_witness:
  "EvtClose sample_api_close_fails
     ([Call_CreateEvent, Call_EvtSubscribe 100 ''Application'' ''*'', Call_CloseHandle 100] @
      sample_batch_trace) 12 = Some (Errno 6) \<and>
   Gather sample_api_close_fails sample_ext sample_config [] sample_sink =
     Some (Done (Some (Errno 6)),
           sample_config\<lparr>subscription := 200,
             buf := write_buffer (utf16le sample_xml) (buf sample_config)\<rparr>,
           [Call_CreateEvent, Call_EvtSubscribe 100 ''Application'' ''*'', Call_CloseHandle 100] @
             sample_batch_trace @ [Call_EvtClose 12],
           \<lparr>metrics = [], logs = [Debug_subscription 200, Error_getting_events (Errno 6)]\<rparr>)"
proof -
  let ?api = sample_api_close_fails
  let ?t = "[Call_CreateEvent, Call_EvtSubscribe 100 ''Application'' ''*'', Call_CloseHandle 100]"
  let ?w = "sample_config\<lparr>subscription := 200\<rparr>"
  let ?out = "sample_sink\<lparr>logs := logs sample_sink @ [Debug_subscription 200]\<rparr>"
  have start: "Gather_start ?api sample_config [] sample_sink = Some (?w, ?t, ?out)"
    by (rule sample_Gather_start) (simp_all add: sample_api_close_fails_def)
  have batches: "Gather_batches 0 ?api sample_ext ?w ?t ?out = Some (?w, ?t, ?out)"
    by simp
  have w: "buf ?w = replicate 16384 (CHR 0x00)" "Locale ?w = 0"
    by (simp_all add: sample_config_def)
  have s: "subscription ?w = 200" by simp
  have pull: "EvtNext ?api ?t (subscription ?w) 5 = (None, [12, 11], 2)"
    unfolding s by (rule sample_pull) (simp_all add: sample_api_close_fails_def)
  have rendered: "fetchEvents_render ?api sample_ext [12, 11] [] ?w
      (?t @ [Call_EvtNext (subscription ?w) 5]) =
      (Done [sample_rendered], ?w\<lparr>buf := write_buffer (utf16le sample_xml) (buf ?w)\<rparr>,
       ?t @ sample_batch_trace)"
    unfolding s
    by (rule sample_fetchEvents_render [OF _ _ _ w])
       (simp_all add: sample_api_close_fails_def)
  have i: "0 < length [12, 11 :: nat]" by simp
  have before: "\<forall>j<0. EvtClose ?api ((?t @ sample_batch_trace) @
      map Call_EvtClose (take j [12, 11])) ([12, 11] ! j) = None"
    by simp
  have fails: "EvtClose ?api ((?t @ sample_batch_trace) @ map Call_EvtClose (take 0 [12, 11]))
      ([12, 11] ! 0) = Some (Errno 6)"
    by (simp add: sample_api_close_fails_def)
  have "Gather ?api sample_ext sample_config [] sample_sink =
     Some (Done (Some (Errno 6)), ?w\<lparr>buf := write_buffer (utf16le sample_xml) (buf ?w)\<rparr>,
           (?t @ sample_batch_trace) @ map Call_EvtClose (take (Suc 0) [12, 11]),
           ?out\<lparr>logs := logs ?out @ [Error_getting_events (Errno 6)]\<rparr>)"
    using close_failure_ends_cycle [OF start batches pull _ sample_hs rendered i before fails
        refl]
    by (simp add: ERROR_NO_MORE_ITEMS_def)
  then show ?thesis
    using fails by (simp add: sample_sink_def)
qed

lemma sample_close_failure:
  assumes api: "EvtFormatMessage api = EvtFormatMessage sample_api"
      "EvtRender api = EvtRender sample_api"
      "EvtOpenPublisherMetadata api = EvtOpenPublisherMetadata sample_api"
    and nxt: "EvtNext api = EvtNext sample_api"
    and cl: "EvtClose api (t @ sample_batch_trace) 12 = Some e"
    and w: "buf w = replicate 16384 (CHR 0x00)" "Locale w = 0"
    and t: "Call_EvtNext 200 5 \<notin> set t"
  shows "fetchEvents api sample_ext w 200 t =
     (Done ([sample_rendered], Some e), w\<lparr>buf := write_buffer (utf16le sample_xml) (buf w)\<rparr>,
      t @ sample_batch_trace @ [Call_EvtClose 12])"
proof -
  have i: "0 < length [12, 11 :: nat]" by simp
  have before: "\<forall>j<0. EvtClose api ((t @ sample_batch_trace) @
      map Call_EvtClose (take j [12, 11])) ([12, 11] ! j) = None"
    by simp
  have fails: "EvtClose api ((t @ sample_batch_trace) @ map Call_EvtClose (take 0 [12, 11]))
      ([12, 11] ! 0) = Some e"
    using cl by simp
  show ?thesis
    using fetchEvents_close_failure [OF sample_pull [OF nxt t] _ sample_hs
        sample_fetchEvents_render [OF api w] i before fails]
    by simp
qed

text \<open>
  The claim as it stands fails for one error code. Let the close of handle 12 fail with
  \<open>ERROR_NO_MORE_ITEMS\<close>: \<open>fetchEvents\<close> returns that error, and \<open>Gather\<close> does not
  return it: it returns \<open>nil\<close>, as at the end of the backlog, with no record emitted and
  no error logged.
\<close>

theorem close_failure_sentinel_counterexample:
  "EvtClose sample_api_close_sentinel sample_batch_trace 12 = Some ERROR_NO_MORE_ITEMS \<and>
   fst (fetchEvents sample_api_close_sentinel sample_ext (sample_config\<lparr>subscription := 200\<rparr>)
          200 []) = Done ([sample_rendered], Some ERROR_NO_MORE_ITEMS) \<and>
   Gather sample_api_close_sentinel sample_ext (sample_config\<lparr>subscription := 200\<rparr>) []
       sample_sink =
     Some (Done None,
           sample_config\<lparr>subscription := 200,
             buf := write_buffer (utf16le sample_xml) (buf sample_config)\<rparr>,
           sample_batch_trace @ [Call_EvtClose 12],
           \<lparr>metrics = [], logs = [Debug_subscription 200]\<rparr>)"
proof -
  let ?api = sample_api_close_sentinel
  let ?w = "sample_config\<lparr>subscription := 200\<rparr>"
  have w: "buf ?w = replicate 16384 (CHR 0x00)" "Locale ?w = 0"
    by (simp_all add: sample_config_def)
  have cl: "EvtClose ?api ([] @ sample_batch_trace) 12 = Some ERROR_NO_MORE_ITEMS"
    by (simp add: sample_api_close_sentinel_def)
  have f: "fetchEvents ?api sample_ext ?w (subscription ?w) [] =
      (Done ([sample_rendered], Some ERROR_NO_MORE_ITEMS),
       ?w\<lparr>buf := write_buffer (utf16le sample_xml) (buf ?w)\<rparr>,
       [] @ sample_batch_trace @ [Call_EvtClose 12])"
    using sample_close_failure [OF _ _ _ _ cl w, of ] 
    by (simp add: sample_api_close_sentinel_def)
  have "Gather ?api sample_ext ?w [] sample_sink =
      Some (Done None, ?w\<lparr>buf := write_buffer (utf16le sample_xml) (buf ?w)\<rparr>,
            [] @ sample_batch_trace @ [Call_EvtClose 12],
            sample_sink\<lparr>logs := logs sample_sink @ [Debug_subscription (subscription ?w)]\<rparr>)"
    by (simp add: Gather_subscribed Gather_loop_error [OF f])
  then show ?thesis
    using cl f by (simp add: sample_sink_def)
qed

section \<open>What \<open>Gather\<close> emits\<close>

text \<open>
  Claim C1 does not hold of the code. \<open>Gather\<close> never calls \<open>shouldProcessField\<close>: it
  builds every record with the one tag \<open>eventlog_name\<close> and the seven fields
  \<open>record_id\<close>, \<open>event_id\<close>, \<open>level\<close>, \<open>message\<close>, \<open>description\<close>, \<open>source\<close> and
  \<open>created\<close>. In the scenario of the claim (tag patterns \<open>Level*\<close>, field patterns \<open>*\<close>,
  no excludes; an event with \<open>Level = 2\<close> and \<open>LevelText = "Error"\<close>) the classification
  makes \<open>Level\<close> and \<open>LevelText\<close> tags, and the record emitted has neither as a tag: the
  level is the field \<open>level\<close>, and there is no field \<open>EventID\<close> or \<open>LevelText\<close>.
\<close>

theorem Gather_ignores_patterns:
  "EventTags sample_config = [''Level*''] \<and> EventFields sample_config = [''*''] \<and>
   ExcludeFields sample_config = [] \<and> ExcludeEmpty sample_config = [] \<and>
   shouldProcessField sample_Match sample_config ''Level'' = (True, ''tags'') \<and>
   shouldProcessField sample_Match sample_config ''LevelText'' = (True, ''tags'') \<and>
   Level sample_rendered = 2 \<and> LevelText sample_rendered = ''Error'' \<and>
   map_option
     (\<lambda>(r, w, t, out).
        (r, map (\<lambda>m. (map (m_tags m) [''Level'', ''LevelText'', ''eventlog_name''],
                       map (m_fields m) [''level'', ''LevelText'', ''EventID'', ''event_id'']))
              (metrics out)))
     (Gather sample_api sample_ext sample_config [] sample_sink) =
   Some (Done None,
         [([None, None, Some ''Application''],
           [Some (Int_v 2), None, None, Some (Int_v 1000)])])"
proof -
  have g: "Gather sample_api sample_ext sample_config [] sample_sink =
     Some (Done None,
           sample_config\<lparr>subscription := 200,
             buf := write_buffer (utf16le sample_xml) (buf sample_config)\<rparr>,
           sample_cycle_trace (EventlogName sample_config) (Query sample_config),
           sample_sink\<lparr>logs := logs sample_sink @ [Debug_subscription 200],
               metrics := metrics sample_sink @ [sample_metric]\<rparr>)"
    by (rule sample_Gather) (simp_all add: sample_config_def)
  have c: "shouldProcessField sample_Match sample_config ''Level'' = (True, ''tags'') \<and>
      shouldProcessField sample_Match sample_config ''LevelText'' = (True, ''tags'')"
    by (simp add: shouldProcessField_def sample_config_def sample_Match_def)
  have e: "Level sample_rendered = 2 \<and> LevelText sample_rendered = ''Error''"
    by (simp add: sample_rendered_def sample_event_def)
  show ?thesis
    unfolding g using c e
    by (simp add: sample_sink_def sample_metric_def sample_config_def)
qed

text \<open>
  Claim C7 does not hold of the code. \<open>Gather\<close> never reads \<open>TimeStampFromEvent\<close>: it
  always parses \<open>TimeCreated.SystemTime\<close> and takes the wall clock only when the parsing
  fails. With the option false, the record of the sample event carries the time parsed
  from the event, and the clock is not asked.
\<close>

theorem Gather_ignores_TimeStampFromEvent:
  "TimeStampFromEvent (sample_config\<lparr>TimeStampFromEvent := False\<rparr>) = False \<and>
   time_Parse sample_ext RFC3339Nano (TimeCreated_SystemTime sample_rendered) =
     (1577836800, None) \<and>
   map_option
     (\<lambda>(r, w, t, out). (r, map m_time (metrics out), Call_Now \<in> set t))
     (Gather sample_api sample_ext (sample_config\<lparr>TimeStampFromEvent := False\<rparr>) []
        sample_sink) =
   Some (Done None, [1577836800], False)"
proof -
  let ?w = "sample_config\<lparr>TimeStampFromEvent := False\<rparr>"
  have g: "Gather sample_api sample_ext ?w [] sample_sink =
     Some (Done None,
           ?w\<lparr>subscription := 200, buf := write_buffer (utf16le sample_xml) (buf ?w)\<rparr>,
           sample_cycle_trace (EventlogName ?w) (Query ?w),
           sample_sink\<lparr>logs := logs sample_sink @ [Debug_subscription 200],
               metrics := metrics sample_sink @ [sample_metric]\<rparr>)"
    by (rule sample_Gather) (simp_all add: sample_config_def)
  have p: "time_Parse sample_ext RFC3339Nano (TimeCreated_SystemTime sample_rendered) =
      (1577836800, None)"
    by (simp add: sample_ext_def sample_rendered_def sample_event_def)
  show ?thesis
    unfolding g using p
    by (simp add: sample_sink_def sample_metric_def sample_cycle_trace_def
        sample_batch_trace_def sample_text_trace_def)
qed

text \<open>
  Claim C8 does not hold of the code. \<open>createDescriptionFromEvent\<close> takes the event
  alone and always unrolls its EventData; \<open>Gather\<close> reads neither \<open>ProcessEventData\<close> nor
  \<open>ProcessUserData\<close>. With both options false, the description of the sample event
  still holds the two values of its EventData.
\<close>

theorem description_ignores_ProcessEventData:
  "ProcessEventData (sample_config\<lparr>ProcessEventData := False, ProcessUserData := False\<rparr>)
     = False \<and>
   map Value (fst (UnrollXMLFields sample_ext (EventData_InnerXML sample_rendered) Map.empty
     ''_'')) = [''disk'', ''C:''] \<and>
   map_option
     (\<lambda>(r, w, t, out). (r, map (\<lambda>m. m_fields m ''description'') (metrics out)))
     (Gather sample_api sample_ext
        (sample_config\<lparr>ProcessEventData := False, ProcessUserData := False\<rparr>) []
        sample_sink) =
   Some (Done None, [Some (String_v ''disk|C:'')])"
proof -
  let ?w = "sample_config\<lparr>ProcessEventData := False, ProcessUserData := False\<rparr>"
  have g: "Gather sample_api sample_ext ?w [] sample_sink =
     Some (Done None,
           ?w\<lparr>subscription := 200, buf := write_buffer (utf16le sample_xml) (buf ?w)\<rparr>,
           sample_cycle_trace (EventlogName ?w) (Query ?w),
           sample_sink\<lparr>logs := logs sample_sink @ [Debug_subscription 200],
               metrics := metrics sample_sink @ [sample_metric]\<rparr>)"
    by (rule sample_Gather) (simp_all add: sample_config_def)
  have u: "map Value (fst (UnrollXMLFields sample_ext (EventData_InnerXML sample_rendered)
      Map.empty ''_'')) = [''disk'', ''C:'']"
    by (simp add: sample_ext_def sample_rendered_def sample_event_def)
  show ?thesis
    unfolding g using u
    by (simp add: sample_sink_def sample_metric_def)
qed

end
